theory Spec2Isabelle
  imports Main
begin

section \<open>Bytes, error codes and memory\<close>

text \<open>
  A C \<^verbatim>\<open>char\<close> is a HOL \<open>char\<close>; a buffer is a list of them. A digest
  (\<^verbatim>\<open>git_oid\<close>) is an array of 20 bytes that the code only copies and compares.
\<close>

type_synonym bytes = "char list"
type_synonym git_oid = "char list"

definition NUL :: char where
  "NUL = CHR 0x00"

text \<open>
  The negative return codes of the library. The last two are not return codes: they stand
  for the two ways in which a call does not return at all, a failed \<^verbatim>\<open>assert\<close> and
  an operation that C leaves undefined (an access outside of every live buffer, the
  difference of unrelated pointers).
\<close>

datatype error =
    GIT_ERROR | GIT_ENOTFOUND | GIT_ENOMEM | GIT_ENOTAREPO | GIT_EINVALIDTYPE | GIT_EBUSY
  | ASSERT_FAILED | UNDEFINED_BEHAVIOUR

text \<open>
  A pointer is \<^verbatim>\<open>NULL\<close> or addresses a byte of an allocated block: the block and
  the offset inside it. The heap maps the live blocks to their contents.
\<close>

datatype ptr = NULL | Ptr nat nat

record heap =
  blocks :: "nat \<Rightarrow> bytes option"
  brk :: nat
  avail :: nat

text \<open>
  Modelled from the spec: \<^verbatim>\<open>git__malloc\<close> and \<^verbatim>\<open>free\<close> (util.h and the C
  library are not part of the sources). An allocation fails, returning \<^verbatim>\<open>NULL\<close>,
  when the request exceeds what the allocator has left, or \<^verbatim>\<open>PTRDIFF_MAX\<close>, which is
  \<open>2 ^ 63 - 1\<close> where \<^verbatim>\<open>size_t\<close> has 64 bits; a fresh block is filled with zero
  bytes; freeing \<^verbatim>\<open>NULL\<close> does nothing.
\<close>

definition git__malloc :: "nat \<Rightarrow> heap \<Rightarrow> ptr \<times> heap" where
  "git__malloc n h =
     (if avail h < n \<or> 2 ^ 63 \<le> n then (NULL, h)
      else (Ptr (brk h) 0,
            h\<lparr>blocks := (blocks h)(brk h \<mapsto> replicate n NUL),
              brk := Suc (brk h), avail := avail h - n\<rparr>))"

definition free :: "ptr \<Rightarrow> heap \<Rightarrow> heap" where
  "free p h =
     (case p of
        NULL \<Rightarrow> h
      | Ptr a off \<Rightarrow>
          (case blocks h a of
             None \<Rightarrow> h
           | Some bs \<Rightarrow> h\<lparr>blocks := (blocks h)(a := None), avail := avail h + length bs\<rparr>))"

text \<open>Reading \<open>n\<close> bytes at a pointer; \<open>None\<close> when they are not all inside a live block.\<close>

definition rd :: "heap \<Rightarrow> ptr \<Rightarrow> nat \<Rightarrow> bytes option" where
  "rd h p n =
     (case p of
        NULL \<Rightarrow> (if n = 0 then Some [] else None)
      | Ptr a off \<Rightarrow>
          (case blocks h a of
             None \<Rightarrow> None
           | Some bs \<Rightarrow> (if off + n \<le> length bs then Some (take n (drop off bs)) else None)))"

text \<open>Writing bytes at a pointer (\<^verbatim>\<open>memcpy\<close> into a block).\<close>

definition wr :: "heap \<Rightarrow> ptr \<Rightarrow> bytes \<Rightarrow> heap option" where
  "wr h p bs =
     (case p of
        NULL \<Rightarrow> (if bs = [] then Some h else None)
      | Ptr a off \<Rightarrow>
          (case blocks h a of
             None \<Rightarrow> None
           | Some old \<Rightarrow>
               (if off + length bs \<le> length old
                then Some (h\<lparr>blocks := (blocks h)(a \<mapsto>
                             take off old @ bs @ drop (off + length bs) old)\<rparr>)
                else None)))"

section \<open>Raw objects and their hash (odb.c)\<close>

datatype git_otype =
    GIT_OBJ_ANY | GIT_OBJ_BAD | GIT_OBJ__EXT1 | GIT_OBJ_COMMIT | GIT_OBJ_TREE
  | GIT_OBJ_BLOB | GIT_OBJ_TAG | GIT_OBJ__EXT2 | GIT_OBJ_OFS_DELTA | GIT_OBJ_REF_DELTA

text \<open>
  The numeric value of the enumeration: the comments of the type table give the values
  from 0 to 7; \<^verbatim>\<open>GIT_OBJ_ANY\<close> and \<^verbatim>\<open>GIT_OBJ_BAD\<close> are the two negative ones.
\<close>

fun otype_num :: "git_otype \<Rightarrow> int" where
  "otype_num GIT_OBJ_ANY = -2"
| "otype_num GIT_OBJ_BAD = -1"
| "otype_num GIT_OBJ__EXT1 = 0"
| "otype_num GIT_OBJ_COMMIT = 1"
| "otype_num GIT_OBJ_TREE = 2"
| "otype_num GIT_OBJ_BLOB = 3"
| "otype_num GIT_OBJ_TAG = 4"
| "otype_num GIT_OBJ__EXT2 = 5"
| "otype_num GIT_OBJ_OFS_DELTA = 6"
| "otype_num GIT_OBJ_REF_DELTA = 7"

text \<open>The field \<^verbatim>\<open>type\<close> of a raw object is \<open>otype\<close> here.\<close>

record git_rawobj =
  data :: ptr
  len :: nat
  otype :: git_otype

definition obj_type_table :: "(string \<times> bool) list" where
  "obj_type_table =
     [('''', False), (''commit'', True), (''tree'', True), (''blob'', True),
      (''tag'', True), ('''', False), (''OFS_DELTA'', False), (''REF_DELTA'', False)]"

definition git_otype_tostring :: "git_otype \<Rightarrow> string" where
  "git_otype_tostring t =
     (if otype_num t < 0 \<or> length obj_type_table \<le> nat (otype_num t) then ''''
      else fst (obj_type_table ! nat (otype_num t)))"

definition git_otype_is_loose :: "git_otype \<Rightarrow> bool" where
  "git_otype_is_loose t =
     (if otype_num t < 0 \<or> length obj_type_table \<le> nat (otype_num t) then False
      else snd (obj_type_table ! nat (otype_num t)))"

text \<open>The decimal rendering that \<^verbatim>\<open>%zu\<close> produces.\<close>

fun dec :: "nat \<Rightarrow> string" where
  "dec n =
     (if n < 10 then [''0123456789'' ! n]
      else dec (n div 10) @ [''0123456789'' ! (n mod 10)])"

declare dec.simps [simp del]

text \<open>
  \<^verbatim>\<open>snprintf(hdr, n, ...)\<close> for a rendered string \<open>s\<close>: the buffer receives at most
  \<open>n - 1\<close> characters and the terminating NUL, the result is the length of \<open>s\<close>.
\<close>

definition snprintf :: "nat \<Rightarrow> string \<Rightarrow> bytes \<times> nat" where
  "snprintf n s = (if n = 0 then [] else take (n - 1) s @ [NUL], length s)"

text \<open>The result is the header buffer and the header length, NUL included.\<close>

definition format_object_header :: "nat \<Rightarrow> git_rawobj \<Rightarrow> error + (bytes \<times> nat)" where
  "format_object_header n obj =
     (let type_str = git_otype_tostring (otype obj);
          (hdr, l) = snprintf n (type_str @ '' '' @ dec (len obj))
      in if \<not> 0 < l then Inl ASSERT_FAILED
         else if \<not> l < n then Inl ASSERT_FAILED
         else if n \<le> l then Inl GIT_ERROR
         else Inr (hdr, l + 1))"

text \<open>
  Modelled from the spec: \<^verbatim>\<open>git_hash_vec\<close> (hash.c is not part of the sources) feeds the
  digest primitive \<open>H\<close> the buffers in order, that is, their concatenation.
\<close>

definition git_hash_vec :: "(bytes \<Rightarrow> git_oid) \<Rightarrow> bytes list \<Rightarrow> git_oid" where
  "git_hash_vec H vec = H (concat vec)"

definition git_odb__hash_obj ::
  "(bytes \<Rightarrow> git_oid) \<Rightarrow> heap \<Rightarrow> nat \<Rightarrow> git_rawobj \<Rightarrow> error + (git_oid \<times> bytes \<times> nat)" where
  "git_odb__hash_obj H h n obj =
     (if \<not> git_otype_is_loose (otype obj) then Inl GIT_ERROR
      else if data obj = NULL \<and> len obj \<noteq> 0 then Inl GIT_ERROR
      else
        (case format_object_header n obj of
           Inl e \<Rightarrow> (if e = ASSERT_FAILED then Inl ASSERT_FAILED else Inl GIT_ERROR)
         | Inr (hdr, hdrlen) \<Rightarrow>
             (case rd h (data obj) (len obj) of
                None \<Rightarrow> Inl UNDEFINED_BEHAVIOUR
              | Some payload \<Rightarrow>
                  Inr (git_hash_vec H [take hdrlen hdr, payload], hdr, hdrlen))))"

definition git_rawobj_hash :: "(bytes \<Rightarrow> git_oid) \<Rightarrow> heap \<Rightarrow> git_rawobj \<Rightarrow> error + git_oid" where
  "git_rawobj_hash H h obj =
     (case git_odb__hash_obj H h 64 obj of
        Inl e \<Rightarrow> Inl e
      | Inr (oid, hdr, hdrlen) \<Rightarrow> Inr oid)"

definition hello_heap :: heap where
  "hello_heap = \<lparr>blocks = Map.empty(0 \<mapsto> ''hello''), brk = 1, avail = 0\<rparr>"

definition hello_blob :: git_rawobj where
  "hello_blob = \<lparr>data = Ptr 0 0, len = 5, otype = GIT_OBJ_BLOB\<rparr>"

text \<open>
  The names of the four loose types as the specification lists them (1 is \<open>commit\<close>,
  2 is \<open>tree\<close>, 3 is \<open>blob\<close>, 4 is \<open>tag\<close>), to compare the type table of the code with.
\<close>

fun spec_type_name :: "git_otype \<Rightarrow> string" where
  "spec_type_name GIT_OBJ_COMMIT = ''commit''"
| "spec_type_name GIT_OBJ_TREE = ''tree''"
| "spec_type_name GIT_OBJ_BLOB = ''blob''"
| "spec_type_name GIT_OBJ_TAG = ''tag''"
| "spec_type_name t = ''''"

definition empty_commit :: git_rawobj where
  "empty_commit = \<lparr>data = NULL, len = 0, otype = GIT_OBJ_COMMIT\<rparr>"

definition tree_obj :: git_rawobj where
  "tree_obj = \<lparr>data = Ptr 0 2, len = 3, otype = GIT_OBJ_TREE\<rparr>"

definition tag_obj :: git_rawobj where
  "tag_obj = \<lparr>data = Ptr 0 0, len = 2, otype = GIT_OBJ_TAG\<rparr>"

section \<open>The object database (odb.c)\<close>

text \<open>
  A return code is \<open>None\<close> for \<^verbatim>\<open>GIT_SUCCESS\<close> and \<open>Some e\<close> for the negative code
  \<open>e\<close>; the loops of the database test \<^verbatim>\<open>error < 0\<close>, that is, \<open>error \<noteq> None\<close>.

  A backend is a record of function pointers. Each takes the caller's \<^verbatim>\<open>out\<close>
  structure and the memory and returns the code, the structure and the memory as it
  leaves them. \<^verbatim>\<open>read\<close> is mandatory (the code asserts it), \<^verbatim>\<open>read_header\<close> and
  \<^verbatim>\<open>write\<close> (here \<open>write_obj\<close>) may be \<^verbatim>\<open>NULL\<close>. The field \<open>odb\<close> is the address of the database
  that owns the backend.
\<close>

type_synonym status = "error option"

record git_odb_backend =
  odb :: "nat option"
  priority :: int
  read :: "git_rawobj \<Rightarrow> git_oid \<Rightarrow> heap \<Rightarrow> status \<times> git_rawobj \<times> heap"
  read_header :: "(git_rawobj \<Rightarrow> git_oid \<Rightarrow> heap \<Rightarrow> status \<times> git_rawobj \<times> heap) option"
  write_obj :: "(git_oid \<Rightarrow> git_rawobj \<Rightarrow> heap \<Rightarrow> status \<times> git_oid \<times> heap) option"

record git_odb =
  self :: nat
  backends :: "git_odb_backend list"

text \<open>
  Modelled from the spec: \<^verbatim>\<open>git_rawobj_close\<close> (its definition is not part of the
  sources) releases the byte buffer of a raw object and clears the pointer.
\<close>

definition git_rawobj_close :: "git_rawobj \<Rightarrow> heap \<Rightarrow> git_rawobj \<times> heap" where
  "git_rawobj_close obj h = (obj\<lparr>data := NULL\<rparr>, free (data obj) h)"

text \<open>The priorities are C \<^verbatim>\<open>int\<close>s: their difference wraps around at 32 bits.\<close>

definition int32 :: "int \<Rightarrow> int" where
  "int32 x = (x + 2 ^ 31) mod 2 ^ 32 - 2 ^ 31"

definition backend_sort_cmp :: "git_odb_backend \<Rightarrow> git_odb_backend \<Rightarrow> int" where
  "backend_sort_cmp backend_a backend_b = int32 (priority backend_b - priority backend_a)"

definition priorities_small :: "git_odb \<Rightarrow> bool" where
  "priorities_small d \<longleftrightarrow> (\<forall>b\<in>set (backends d). - (2 ^ 30) \<le> priority b \<and> priority b < 2 ^ 30)"

text \<open>
  Modelled from the spec: \<^verbatim>\<open>git_vector_insert\<close> and \<^verbatim>\<open>git_vector_sort\<close> (vector.c
  is not part of the sources). The vector is a list; inserting appends; sorting orders by
  the comparison function of the vector and keeps the insertion order of equal elements.
\<close>

fun vector_insort :: "('a \<Rightarrow> 'a \<Rightarrow> int) \<Rightarrow> 'a \<Rightarrow> 'a list \<Rightarrow> 'a list" where
  "vector_insort cmp x [] = [x]"
| "vector_insort cmp x (y # ys) =
     (if cmp x y \<le> 0 then x # y # ys else y # vector_insort cmp x ys)"

definition git_vector_sort :: "('a \<Rightarrow> 'a \<Rightarrow> int) \<Rightarrow> 'a list \<Rightarrow> 'a list" where
  "git_vector_sort cmp xs = foldr (vector_insort cmp) xs []"

definition git_odb_new :: "nat \<Rightarrow> git_odb" where
  "git_odb_new a = \<lparr>self = a, backends = []\<rparr>"

definition git_odb_add_backend :: "git_odb \<Rightarrow> git_odb_backend \<Rightarrow> error + git_odb" where
  "git_odb_add_backend db backend =
     (if odb backend \<noteq> None \<and> odb backend \<noteq> Some (self db) then Inl GIT_EBUSY
      else Inr (db\<lparr>backends :=
                  git_vector_sort backend_sort_cmp
                    (backends db @ [backend\<lparr>odb := Some (self db)\<rparr>])\<rparr>))"

text \<open>The databases that the public interface can build.\<close>

inductive odb_built :: "git_odb \<Rightarrow> bool" where
  new: "odb_built (git_odb_new a)"
| add: "odb_built db \<Longrightarrow> git_odb_add_backend db backend = Inr db' \<Longrightarrow> odb_built db'"

text \<open>
  The loop of \<^verbatim>\<open>git_odb_read\<close>: the state is the last code, the \<^verbatim>\<open>out\<close> structure
  and the memory; the next backend is asked only while the code is negative.
\<close>

fun read_loop ::
  "git_odb_backend list \<Rightarrow> git_oid \<Rightarrow> status \<times> git_rawobj \<times> heap \<Rightarrow> status \<times> git_rawobj \<times> heap" where
  "read_loop [] oid s = s"
| "read_loop (b # bs) oid (error, out, h) =
     (if error \<noteq> None then read_loop bs oid (read b out oid h) else (error, out, h))"

definition git_odb_read ::
  "git_rawobj \<Rightarrow> git_odb \<Rightarrow> git_oid \<Rightarrow> heap \<Rightarrow> status \<times> git_rawobj \<times> heap" where
  "git_odb_read out db oid h = read_loop (backends db) oid (Some GIT_ENOTFOUND, out, h)"

fun read_header_loop ::
  "git_odb_backend list \<Rightarrow> git_oid \<Rightarrow> status \<times> git_rawobj \<times> heap \<Rightarrow> status \<times> git_rawobj \<times> heap" where
  "read_header_loop [] oid s = s"
| "read_header_loop (b # bs) oid (error, out, h) =
     (if error \<noteq> None
      then read_header_loop bs oid
             (case read_header b of None \<Rightarrow> (error, out, h) | Some f \<Rightarrow> f out oid h)
      else (error, out, h))"

definition git_odb_read_header ::
  "git_rawobj \<Rightarrow> git_odb \<Rightarrow> git_oid \<Rightarrow> heap \<Rightarrow> status \<times> git_rawobj \<times> heap" where
  "git_odb_read_header out db oid h =
     (case read_header_loop (backends db) oid (Some GIT_ENOTFOUND, out, h) of
        (error, out1, h1) \<Rightarrow>
          if error \<noteq> None
          then (case git_odb_read out1 db oid h1 of
                  (error2, out2, h2) \<Rightarrow>
                    (case git_rawobj_close out2 h2 of (out3, h3) \<Rightarrow> (error2, out3, h3)))
          else (error, out1, h1))"

fun write_loop ::
  "git_odb_backend list \<Rightarrow> git_rawobj \<Rightarrow> status \<times> git_oid \<times> heap \<Rightarrow> status \<times> git_oid \<times> heap" where
  "write_loop [] obj s = s"
| "write_loop (b # bs) obj (error, oid, h) =
     (if error \<noteq> None
      then write_loop bs obj
             (case write_obj b of None \<Rightarrow> (error, oid, h) | Some f \<Rightarrow> f oid obj h)
      else (error, oid, h))"

definition git_odb_write ::
  "git_oid \<Rightarrow> git_odb \<Rightarrow> git_rawobj \<Rightarrow> heap \<Rightarrow> status \<times> git_oid \<times> heap" where
  "git_odb_write oid db obj h = write_loop (backends db) obj (Some GIT_ERROR, oid, h)"

text \<open>Backends for the examples: one that always fails with a given code, and one
  that holds a single object and allocates a buffer for its bytes on every read.\<close>

definition failing :: "error \<Rightarrow> git_odb_backend" where
  "failing e =
     \<lparr>odb = None, priority = 0,
      read = (\<lambda>out oid h. (Some e, out, h)),
      read_header = None, write_obj = None\<rparr>"

definition holding :: "git_oid \<Rightarrow> git_otype \<Rightarrow> bytes \<Rightarrow> git_odb_backend" where
  "holding k t bs =
     \<lparr>odb = None, priority = 0,
      read = (\<lambda>out oid h.
         if oid \<noteq> k then (Some GIT_ENOTFOUND, out, h)
         else (case git__malloc (length bs) h of
                 (NULL, h1) \<Rightarrow> (Some GIT_ENOMEM, out, h1)
               | (Ptr a off, h1) \<Rightarrow>
                   (None, \<lparr>data = Ptr a off, len = length bs, otype = t\<rparr>,
                    h1\<lparr>blocks := (blocks h1)(a \<mapsto> bs)\<rparr>))),
      read_header = None, write_obj = None\<rparr>"

definition heap0 :: heap where
  "heap0 = \<lparr>blocks = Map.empty, brk = 0, avail = 65536\<rparr>"

text \<open>A raw object structure that nothing has filled in yet.\<close>

definition out0 :: git_rawobj where
  "out0 = \<lparr>data = NULL, len = 0, otype = GIT_OBJ_BAD\<rparr>"

text \<open>A backend that serves one object from a buffer of its own, without allocating.\<close>

definition serving :: "git_oid \<Rightarrow> git_rawobj \<Rightarrow> git_odb_backend" where
  "serving k r =
     \<lparr>odb = None, priority = 0,
      read = (\<lambda>out oid h. if oid = k then (None, r, h) else (Some GIT_ENOTFOUND, out, h)),
      read_header = None, write_obj = None\<rparr>"

definition db_err_nf :: git_odb where
  "db_err_nf = \<lparr>self = 0, backends = [failing GIT_ERROR, failing GIT_ENOTFOUND]\<rparr>"

definition db_err_hello :: git_odb where
  "db_err_hello = \<lparr>self = 0, backends = [failing GIT_ERROR, serving ''k'' hello_blob]\<rparr>"

definition db_hello :: git_odb where
  "db_hello = \<lparr>self = 0, backends = [holding ''k'' GIT_OBJ_BLOB ''hello'']\<rparr>"

definition db_nf_err :: git_odb where
  "db_nf_err = \<lparr>self = 0, backends = [failing GIT_ENOTFOUND, failing GIT_ERROR]\<rparr>"

text \<open>
  Databases built through the public interface: backends of priority 10 and 20 added in
  that order, and backends of priority \<open>2 ^ 31 - 1\<close> and \<open>- 2\<close>.
\<close>

definition with_priority :: "int \<Rightarrow> git_odb_backend" where
  "with_priority p = (failing GIT_ENOTFOUND)\<lparr>priority := p\<rparr>"

definition db_10 :: git_odb where
  "db_10 = (case git_odb_add_backend (git_odb_new 0) (with_priority 10) of
              Inr d \<Rightarrow> d | Inl e \<Rightarrow> git_odb_new 0)"

definition db_10_20 :: git_odb where
  "db_10_20 = (case git_odb_add_backend db_10 (with_priority 20) of
                 Inr d \<Rightarrow> d | Inl e \<Rightarrow> git_odb_new 0)"

definition db_overflow :: git_odb where
  "db_overflow =
     (case git_odb_add_backend (git_odb_new 0) (with_priority 2147483647) of
        Inl e \<Rightarrow> git_odb_new 0
      | Inr d \<Rightarrow>
          (case git_odb_add_backend d (with_priority (- 2)) of
             Inl e \<Rightarrow> git_odb_new 0 | Inr d' \<Rightarrow> d'))"

section \<open>The source slot and its write buffer (repository.c)\<close>

record git_odb_source =
  raw :: git_rawobj
  write_ptr :: ptr
  written_bytes :: nat
  opened :: bool

text \<open>
  The common header of a typed object. The field \<^verbatim>\<open>id\<close> is \<open>obj_id\<close> here, \<^verbatim>\<open>open\<close>
  is \<open>opened\<close>. The pointer to the owning repository is left out: a world holds one
  repository, and every object of the world belongs to it.
\<close>

record git_object =
  obj_id :: git_oid
  source :: git_odb_source
  in_memory :: bool
  modified :: bool

definition OBJECT_BASE_SIZE :: nat where
  "OBJECT_BASE_SIZE = 4096"

text \<open>Pointer arithmetic: both are only used on pointers into one block.\<close>

definition ptr_add :: "ptr \<Rightarrow> nat \<Rightarrow> ptr" where
  "ptr_add p n = (case p of NULL \<Rightarrow> NULL | Ptr a off \<Rightarrow> Ptr a (off + n))"

definition ptr_diff :: "ptr \<Rightarrow> ptr \<Rightarrow> nat option" where
  "ptr_diff p q =
     (case p of
        NULL \<Rightarrow> (case q of NULL \<Rightarrow> Some 0 | Ptr b j \<Rightarrow> None)
      | Ptr a i \<Rightarrow>
          (case q of
             NULL \<Rightarrow> None
           | Ptr b j \<Rightarrow> (if a = b \<and> j \<le> i then Some (i - j) else None)))"

text \<open>
  Sizes are natural numbers below \<open>2 ^ 64\<close>; the \<^verbatim>\<open>size_t\<close> computations of the code
  wrap around: sums and products are reduced by \<open>size_t\<close>, a difference by \<open>size_sub\<close>.
\<close>

definition size_t :: "nat \<Rightarrow> nat" where
  "size_t n = n mod 2 ^ 64"

definition size_sub :: "nat \<Rightarrow> nat \<Rightarrow> nat" where
  "size_sub a b = (if b \<le> a then a - b else 2 ^ 64 + a - b)"

definition source_resize :: "heap \<Rightarrow> git_odb_source \<Rightarrow> status \<times> heap \<times> git_odb_source" where
  "source_resize h src =
     (case ptr_diff (write_ptr src) (data (raw src)) of
        None \<Rightarrow> (Some UNDEFINED_BEHAVIOUR, h, src)
      | Some write_offset \<Rightarrow>
          (let new_size = size_t (len (raw src) * 2) in
           case git__malloc new_size h of
             (NULL, h1) \<Rightarrow> (Some GIT_ENOMEM, h1, src)
           | (Ptr a off, h1) \<Rightarrow>
               (case rd h1 (data (raw src)) (written_bytes src) of
                  None \<Rightarrow> (Some UNDEFINED_BEHAVIOUR, h1, src)
                | Some bs \<Rightarrow>
                    (case wr h1 (Ptr a off) bs of
                       None \<Rightarrow> (Some UNDEFINED_BEHAVIOUR, h1, src)
                     | Some h2 \<Rightarrow>
                         (None, free (data (raw src)) h2,
                          src\<lparr>raw := (raw src)\<lparr>data := Ptr a off, len := new_size\<rparr>,
                              write_ptr := ptr_add (Ptr a off) write_offset\<rparr>)))))"

text \<open>
  The loop \<^verbatim>\<open>while (written_bytes + len >= raw.len) source_resize(...)\<close> of both append
  functions. With a capacity of zero it never ends: not returning is the value \<open>None\<close>.
\<close>

partial_function (option) resize_loop ::
  "nat \<Rightarrow> heap \<Rightarrow> git_odb_source \<Rightarrow> (status \<times> heap \<times> git_odb_source) option" where
  "resize_loop n h src =
     (if len (raw src) \<le> size_t (written_bytes src + n)
      then (case source_resize h src of
              (None, h1, src1) \<Rightarrow> resize_loop n h1 src1
            | (Some e, h1, src1) \<Rightarrow>
                Some (Some (if e = UNDEFINED_BEHAVIOUR then e else GIT_ENOMEM), h1, src1))
      else Some (None, h, src))"

definition git__source_write ::
  "heap \<Rightarrow> git_odb_source \<Rightarrow> bytes \<Rightarrow> (status \<times> heap \<times> git_odb_source) option" where
  "git__source_write h src bs =
     (if \<not> length bs < 2 ^ 64 then Some (Some UNDEFINED_BEHAVIOUR, h, src)
      else if \<not> (opened src \<and> write_ptr src \<noteq> NULL) then Some (Some ASSERT_FAILED, h, src)
      else
        (case resize_loop (length bs) h src of
           None \<Rightarrow> None
         | Some (Some e, h1, src1) \<Rightarrow> Some (Some e, h1, src1)
         | Some (None, h1, src1) \<Rightarrow>
             (case wr h1 (write_ptr src1) bs of
                None \<Rightarrow> Some (Some UNDEFINED_BEHAVIOUR, h1, src1)
              | Some h2 \<Rightarrow>
                  Some (None, h2,
                        src1\<lparr>write_ptr := ptr_add (write_ptr src1) (length bs),
                             written_bytes := size_t (written_bytes src1 + length bs)\<rparr>))))"

text \<open>
  \<^verbatim>\<open>git__source_printf\<close>, for the string \<open>s\<close> that the format and its arguments
  render to. The first \<^verbatim>\<open>vsnprintf\<close> writes what fits and returns the length of \<open>s\<close>;
  the loop resizes. After a resize the code calls \<^verbatim>\<open>vsnprintf\<close> again with the same
  \<^verbatim>\<open>va_list\<close>, which the first call has consumed (there is no \<^verbatim>\<open>va_copy\<close>): C
  leaves that undefined, so a call that had to resize has no defined result. The length
  that \<^verbatim>\<open>vsnprintf\<close> returns is an \<^verbatim>\<open>int\<close>; what the C library does with a longer
  string is not modelled. Likewise the length of the bytes handed to
  \<^verbatim>\<open>git__source_write\<close> is a \<^verbatim>\<open>size_t\<close>.
\<close>

definition vsnprintf_at :: "heap \<Rightarrow> ptr \<Rightarrow> nat \<Rightarrow> string \<Rightarrow> heap option" where
  "vsnprintf_at h p n s = wr h p (fst (snprintf n s))"

definition git__source_printf ::
  "heap \<Rightarrow> git_odb_source \<Rightarrow> string \<Rightarrow> (status \<times> heap \<times> git_odb_source) option" where
  "git__source_printf h src s =
     (if \<not> length s < 2 ^ 31 then Some (Some UNDEFINED_BEHAVIOUR, h, src)
      else if \<not> (opened src \<and> write_ptr src \<noteq> NULL) then Some (Some ASSERT_FAILED, h, src)
      else
        (case vsnprintf_at h (write_ptr src) (size_sub (len (raw src)) (written_bytes src)) s of
           None \<Rightarrow> Some (Some UNDEFINED_BEHAVIOUR, h, src)
         | Some h0 \<Rightarrow>
             (let did_resize = (len (raw src) \<le> size_t (written_bytes src + length s)) in
              case resize_loop (length s) h0 src of
                None \<Rightarrow> None
              | Some (Some e, h1, src1) \<Rightarrow> Some (Some e, h1, src1)
              | Some (None, h1, src1) \<Rightarrow>
                  if did_resize then Some (Some UNDEFINED_BEHAVIOUR, h1, src1)
                  else
                    Some (None, h1,
                          src1\<lparr>write_ptr := ptr_add (write_ptr src1) (length s),
                               written_bytes := size_t (written_bytes src1 + length s)\<rparr>))))"

definition git_object__source_close :: "heap \<Rightarrow> git_object \<Rightarrow> heap \<times> git_object" where
  "git_object__source_close h object =
     (if opened (source object)
      then (case git_rawobj_close (raw (source object)) h of
              (r, h1) \<Rightarrow> (h1, object\<lparr>source := (source object)\<lparr>raw := r, opened := False\<rparr>\<rparr>))
      else (h, object))"

definition prepare_write :: "heap \<Rightarrow> git_object \<Rightarrow> heap \<times> git_object" where
  "prepare_write h object =
     (case (if write_ptr (source object) \<noteq> NULL \<or> opened (source object)
            then git_object__source_close h object else (h, object)) of
        (h1, object1) \<Rightarrow>
          (case git__malloc OBJECT_BASE_SIZE h1 of
             (p, h2) \<Rightarrow>
               (h2, object1\<lparr>source := (source object1)
                      \<lparr>raw := (raw (source object1))\<lparr>data := p, len := OBJECT_BASE_SIZE\<rparr>,
                       write_ptr := p, written_bytes := 0, opened := True\<rparr>\<rparr>)))"

section \<open>The repository and its object cache (repository.c)\<close>

record git_repository =
  db :: git_odb
  objects :: "git_oid \<Rightarrow> nat option"
  path_repository :: "string option"
  path_odb :: "string option"
  path_index :: "string option"
  path_workdir :: "string option"
  is_bare :: bool

text \<open>
  The world of one repository: the memory, the typed objects by address (an object is the
  typed view of the block allocated for it) and the repository structure. The object table
  of the repository maps a digest to the address of the object cached under it.
\<close>

record world =
  mem :: heap
  objs :: "nat \<Rightarrow> git_object option"
  repo :: git_repository

text \<open>
  Modelled from the spec: the hash table (hashtable.c is not part of the sources) is a
  mapping from digests to objects; a lookup is by the full digest, an insertion overwrites
  the binding of the digest, a removal is by digest.
\<close>

definition git_hashtable_lookup :: "(git_oid \<Rightarrow> nat option) \<Rightarrow> git_oid \<Rightarrow> nat option" where
  "git_hashtable_lookup tbl key = tbl key"

definition git_hashtable_insert ::
  "(git_oid \<Rightarrow> nat option) \<Rightarrow> git_oid \<Rightarrow> nat \<Rightarrow> (git_oid \<Rightarrow> nat option)" where
  "git_hashtable_insert tbl key object = tbl(key \<mapsto> object)"

definition git_hashtable_remove ::
  "(git_oid \<Rightarrow> nat option) \<Rightarrow> git_oid \<Rightarrow> (git_oid \<Rightarrow> nat option)" where
  "git_hashtable_remove tbl key = tbl(key := None)"

text \<open>
  The collaborators that are not part of the sources, as parameters: the sizes of the four
  typed structures, the parsers (given the type and the raw bytes, they return a code) and
  the serializers.

  Modelled from the spec: a serializer writes the canonical bytes of the object at a given
  address by a sequence of \<^verbatim>\<open>git__source_write\<close> and \<^verbatim>\<open>git__source_printf\<close> calls on
  the source slot, stops at the first call that fails, and otherwise returns a code of
  its own.
\<close>

datatype src_op = Write bytes | Printf string

record collab =
  sizeof :: "git_otype \<Rightarrow> nat"
  parse :: "git_otype \<Rightarrow> bytes \<Rightarrow> status"
  writeback :: "git_otype \<Rightarrow> nat \<Rightarrow> src_op list \<times> status"

fun source_op ::
  "src_op \<Rightarrow> heap \<Rightarrow> git_odb_source \<Rightarrow> (status \<times> heap \<times> git_odb_source) option" where
  "source_op (Write bs) h src = git__source_write h src bs"
| "source_op (Printf s) h src = git__source_printf h src s"

fun run_writeback ::
  "src_op list \<Rightarrow> status \<Rightarrow> heap \<Rightarrow> git_odb_source \<Rightarrow> (status \<times> heap \<times> git_odb_source) option" where
  "run_writeback [] fin h src = Some (fin, h, src)"
| "run_writeback (x # xs) fin h src =
     (case source_op x h src of
        None \<Rightarrow> None
      | Some (Some e, h1, src1) \<Rightarrow> Some (Some e, h1, src1)
      | Some (None, h1, src1) \<Rightarrow> run_writeback xs fin h1 src1)"

definition object_sizes :: "collab \<Rightarrow> nat list" where
  "object_sizes C =
     [0, sizeof C GIT_OBJ_COMMIT, sizeof C GIT_OBJ_TREE, sizeof C GIT_OBJ_BLOB,
      sizeof C GIT_OBJ_TAG]"

text \<open>
  \<^verbatim>\<open>git__malloc(object_sizes[type])\<close> with its check, the result being the address.
  An index outside of the table is undefined; so is a size of zero (the entry of type 0),
  since both callers go on to write the object header into the block.
\<close>

definition alloc_object :: "collab \<Rightarrow> git_otype \<Rightarrow> heap \<Rightarrow> (error + nat) \<times> heap" where
  "alloc_object C t h =
     (if otype_num t < 0 \<or> length (object_sizes C) \<le> nat (otype_num t)
      then (Inl UNDEFINED_BEHAVIOUR, h)
      else if object_sizes C ! nat (otype_num t) = 0 then (Inl UNDEFINED_BEHAVIOUR, h)
      else (case git__malloc (object_sizes C ! nat (otype_num t)) h of
              (NULL, h1) \<Rightarrow> (Inl GIT_ENOMEM, h1)
            | (Ptr a off, h1) \<Rightarrow> (Inr a, h1)))"

text \<open>A digest that nothing has filled in yet, and an object after \<^verbatim>\<open>memset\<close> to zero.\<close>

definition oid0 :: git_oid where
  "oid0 = replicate 20 NUL"

definition zero_object :: git_object where
  "zero_object =
     \<lparr>obj_id = oid0,
      source = \<lparr>raw = \<lparr>data = NULL, len = 0, otype = GIT_OBJ__EXT1\<rparr>,
                write_ptr = NULL, written_bytes = 0, opened = False\<rparr>,
      in_memory = False, modified = False\<rparr>"

definition typed :: "git_otype \<Rightarrow> bool" where
  "typed t \<longleftrightarrow> t = GIT_OBJ_COMMIT \<or> t = GIT_OBJ_TREE \<or> t = GIT_OBJ_TAG \<or> t = GIT_OBJ_BLOB"

text \<open>
  The type-specific \<^verbatim>\<open>free\<close> functions are not part of the sources; each releases the
  object, as the default branch does.
\<close>

definition git_object_free :: "world \<Rightarrow> nat \<Rightarrow> world" where
  "git_object_free w a =
     (case objs w a of
        None \<Rightarrow> w
      | Some object \<Rightarrow>
          (case git_object__source_close (mem w) object of
             (h1, object1) \<Rightarrow>
               w\<lparr>mem := free (Ptr a 0) h1,
                 objs := (objs w)(a := None),
                 repo := (repo w)\<lparr>objects :=
                           git_hashtable_remove (objects (repo w)) (obj_id object1)\<rparr>\<rparr>))"

definition git_object_id :: "git_object \<Rightarrow> git_oid option" where
  "git_object_id obj = (if in_memory obj then None else Some (obj_id obj))"

definition git_repository_newobject :: "collab \<Rightarrow> world \<Rightarrow> git_otype \<Rightarrow> (error + nat) \<times> world" where
  "git_repository_newobject C w t =
     (if \<not> typed t then (Inl GIT_EINVALIDTYPE, w)
      else
        (case alloc_object C t (mem w) of
           (Inl e, h1) \<Rightarrow> (Inl e, w\<lparr>mem := h1\<rparr>)
         | (Inr a, h1) \<Rightarrow>
             (Inr a,
              w\<lparr>mem := h1,
                objs := (objs w)(a \<mapsto>
                  zero_object\<lparr>in_memory := True, modified := True,
                    source := (source zero_object)
                      \<lparr>raw := (raw (source zero_object))\<lparr>otype := t\<rparr>\<rparr>\<rparr>)\<rparr>)))"

definition git_repository_lookup ::
  "collab \<Rightarrow> world \<Rightarrow> git_oid \<Rightarrow> git_otype \<Rightarrow> (error + nat) \<times> world" where
  "git_repository_lookup C w oid t =
     (case git_hashtable_lookup (objects (repo w)) oid of
        Some a \<Rightarrow> (Inr a, w)
      | None \<Rightarrow>
          (case git_odb_read out0 (db (repo w)) oid (mem w) of
             (Some e, obj_file, h1) \<Rightarrow> (Inl e, w\<lparr>mem := h1\<rparr>)
           | (None, obj_file, h1) \<Rightarrow>
               if t \<noteq> GIT_OBJ_ANY \<and> t \<noteq> otype obj_file
               then (Inl GIT_EINVALIDTYPE, w\<lparr>mem := h1\<rparr>)
               else
                 (case alloc_object C (otype obj_file) h1 of
                    (Inl e, h2) \<Rightarrow> (Inl e, w\<lparr>mem := h2\<rparr>)
                  | (Inr a, h2) \<Rightarrow>
                      (let object = zero_object
                             \<lparr>obj_id := oid,
                              source := (source zero_object)\<lparr>raw := obj_file, opened := True\<rparr>\<rparr>;
                           error =
                             (if typed (otype obj_file)
                              then (case rd h2 (data obj_file) (len obj_file) of
                                      None \<Rightarrow> Some UNDEFINED_BEHAVIOUR
                                    | Some bs \<Rightarrow> parse C (otype obj_file) bs)
                              else None)
                       in case error of
                            Some e \<Rightarrow>
                              (Inl e,
                               git_object_free (w\<lparr>mem := h2, objs := (objs w)(a \<mapsto> object)\<rparr>) a)
                          | None \<Rightarrow>
                              (case git_object__source_close h2 object of
                                 (h3, object1) \<Rightarrow>
                                   (Inr a,
                                    w\<lparr>mem := h3,
                                      objs := (objs w)(a \<mapsto> object1),
                                      repo := (repo w)\<lparr>objects :=
                                        git_hashtable_insert (objects (repo w))
                                          (obj_id object1) a\<rparr>\<rparr>))))))"

definition write_back :: "world \<Rightarrow> nat \<Rightarrow> status \<times> world" where
  "write_back w a =
     (case objs w a of
        None \<Rightarrow> (Some ASSERT_FAILED, w)
      | Some object \<Rightarrow>
          if \<not> opened (source object) then (Some ASSERT_FAILED, w)
          else if \<not> modified object then (Some ASSERT_FAILED, w)
          else
            (let object1 = object\<lparr>source := (source object)
                   \<lparr>raw := (raw (source object))\<lparr>len := written_bytes (source object)\<rparr>\<rparr>\<rparr>
             in case git_odb_write oid0 (db (repo w)) (raw (source object1)) (mem w) of
                  (Some e, new_id, h1) \<Rightarrow> (Some e, w\<lparr>mem := h1, objs := (objs w)(a \<mapsto> object1)\<rparr>)
                | (None, new_id, h1) \<Rightarrow>
                    (let tbl1 = (if \<not> in_memory object1
                                 then git_hashtable_remove (objects (repo w)) (obj_id object1)
                                 else objects (repo w));
                         object2 = object1\<lparr>obj_id := new_id\<rparr>;
                         tbl2 = git_hashtable_insert tbl1 (obj_id object2) a;
                         object3 = object2
                           \<lparr>source := (source object2)\<lparr>write_ptr := NULL, written_bytes := 0\<rparr>,
                            modified := False, in_memory := False\<rparr>
                     in case git_object__source_close h1 object3 of
                          (h2, object4) \<Rightarrow>
                            (None,
                             w\<lparr>mem := h2, objs := (objs w)(a \<mapsto> object4),
                               repo := (repo w)\<lparr>objects := tbl2\<rparr>\<rparr>))))"

definition git_object_write :: "collab \<Rightarrow> world \<Rightarrow> nat \<Rightarrow> (status \<times> world) option" where
  "git_object_write C w a =
     (case objs w a of
        None \<Rightarrow> Some (Some ASSERT_FAILED, w)
      | Some object \<Rightarrow>
          if \<not> modified object then Some (None, w)
          else
            (case prepare_write (mem w) object of
               (h1, object1) \<Rightarrow>
                 (case (if typed (otype (raw (source object1)))
                        then run_writeback
                               (fst (writeback C (otype (raw (source object1))) a))
                               (snd (writeback C (otype (raw (source object1))) a))
                               h1 (source object1)
                        else Some (Some GIT_ERROR, h1, source object1)) of
                    None \<Rightarrow> None
                  | Some (Some e, h2, src2) \<Rightarrow>
                      (case git_object__source_close h2 (object1\<lparr>source := src2\<rparr>) of
                         (h3, object3) \<Rightarrow>
                           Some (Some e, w\<lparr>mem := h3, objs := (objs w)(a \<mapsto> object3)\<rparr>))
                  | Some (None, h2, src2) \<Rightarrow>
                      Some (write_back
                              (w\<lparr>mem := h2, objs := (objs w)(a \<mapsto> object1\<lparr>source := src2\<rparr>)\<rparr>) a))))"

section \<open>Example worlds\<close>

definition collab0 :: collab where
  "collab0 =
     \<lparr>sizeof = (\<lambda>t. 64), parse = (\<lambda>t bs. None),
      writeback = (\<lambda>t a. ([Write ''hello''], None))\<rparr>"

definition repo_of :: "git_odb \<Rightarrow> git_repository" where
  "repo_of d =
     \<lparr>db = d, objects = Map.empty, path_repository = None, path_odb = None,
      path_index = None, path_workdir = None, is_bare = False\<rparr>"

text \<open>A repository with an empty cache whose only backend holds a tree under the digest \<open>k\<close>.\<close>

definition world_tree :: world where
  "world_tree =
     \<lparr>mem = heap0, objs = Map.empty,
      repo = repo_of \<lparr>self = 0, backends = [holding ''k'' GIT_OBJ_TREE ''hello'']\<rparr>\<rparr>"

text \<open>
  A backend that accepts every loose object and answers with the pre-image of its digest
  (the digest primitive is the identity), and a repository over it in which a new blob has
  been created.
\<close>

definition storing :: git_odb_backend where
  "storing =
     \<lparr>odb = None, priority = 0,
      read = (\<lambda>out oid h. (Some GIT_ENOTFOUND, out, h)),
      read_header = None,
      write_obj = Some (\<lambda>oid obj h.
        case git_rawobj_hash id h obj of
          Inl e \<Rightarrow> (Some e, oid, h)
        | Inr d \<Rightarrow> (None, d, h))\<rparr>"

definition world_blob :: world where
  "world_blob =
     \<lparr>mem = heap0, objs = Map.empty, repo = repo_of \<lparr>self = 0, backends = [storing]\<rparr>\<rparr>"

definition world_new :: world where
  "world_new = snd (git_repository_newobject collab0 world_blob GIT_OBJ_BLOB)"

text \<open>A fresh write buffer, and the same after an append of 5000 bytes.\<close>

definition buf0 :: "heap \<times> git_object" where
  "buf0 = prepare_write heap0 zero_object"


text \<open>A repository whose only backend cannot write, with a new blob.\<close>

definition world_ro :: world where
  "world_ro =
     snd (git_repository_newobject collab0
            \<lparr>mem = heap0, objs = Map.empty,
             repo = repo_of \<lparr>self = 0, backends = [failing GIT_ERROR]\<rparr>\<rparr> GIT_OBJ_BLOB)"


definition buf3 :: "(status \<times> heap \<times> git_odb_source) option" where
  "buf3 = git__source_printf (fst buf0) (source (snd buf0)) (replicate 5000 (CHR ''a''))"

section \<open>The states of a write buffer\<close>




text \<open>\<open>doubled need cap cap'\<close>: the capacity \<open>cap\<close> has been doubled until it exceeds \<open>need\<close>,
  and no further: not at all when it already did.\<close>

definition doubled :: "nat \<Rightarrow> nat \<Rightarrow> nat \<Rightarrow> bool" where
  "doubled need cap cap' \<longleftrightarrow>
     need < cap' \<and>
     (\<exists>k. cap' = cap * 2 ^ k \<and> (0 < k \<longrightarrow> cap * 2 ^ (k - 1) \<le> need))"

section \<open>Opening a repository (repository.c)\<close>

text \<open>
  What the code asks of its platform, as parameters: the size \<^verbatim>\<open>GIT_PATH_MAX\<close> of the
  path buffer, the file system tests \<^verbatim>\<open>gitfo_isdir\<close> and \<^verbatim>\<open>gitfo_exists\<close> (true
  where the C functions return zero), whether the allocation of the repository and of
  the database structure succeeds, and the constructors of the loose and of the packed
  backend (\<open>None\<close> where they decline).
\<close>

record platform =
  GIT_PATH_MAX :: nat
  gitfo_isdir :: "string \<Rightarrow> bool"
  gitfo_exists :: "string \<Rightarrow> bool"
  alloc_repository :: bool
  alloc_odb :: bool
  git_odb_backend_loose :: "string \<Rightarrow> git_odb_backend option"
  git_odb_backend_pack :: "string \<Rightarrow> git_odb_backend option"

definition GIT_FOLDER :: string where "GIT_FOLDER = ''/.git/''"
definition GIT_OBJECTS_FOLDER :: string where "GIT_OBJECTS_FOLDER = ''objects/''"
definition GIT_INDEX_FILE :: string where "GIT_INDEX_FILE = ''index''"
definition GIT_HEAD_FILE :: string where "GIT_HEAD_FILE = ''HEAD''"

text \<open>
  The loop \<^verbatim>\<open>while (*last_folder != '/') last_folder--\<close> from index \<open>i\<close> downwards:
  the index of the separator found, or \<open>None\<close> when the loop leaves the buffer at its
  start, which nothing in the code prevents.
\<close>

fun scan_back :: "string \<Rightarrow> nat \<Rightarrow> nat option" where
  "scan_back s 0 = (if s ! 0 = CHR ''/'' then Some 0 else None)"
| "scan_back s (Suc i) = (if s ! Suc i = CHR ''/'' then Some (Suc i) else scan_back s i)"

text \<open>
  \<^verbatim>\<open>guess_repository_folders\<close>. The path buffer is the string before its NUL; a
  \<^verbatim>\<open>strcpy\<close> that does not fit the buffer, and a read before its start, are undefined.
  The repository is returned as the call leaves it, also when it fails.
\<close>

definition guess_repository_folders ::
  "platform \<Rightarrow> git_repository \<Rightarrow> string \<Rightarrow> status \<times> git_repository" where
  "guess_repository_folders F r repository_path =
     (if \<not> gitfo_isdir F repository_path then (Some GIT_ENOTAREPO, r)
      else if GIT_PATH_MAX F < length repository_path + 1 then (Some UNDEFINED_BEHAVIOUR, r)
      else if repository_path = [] then (Some UNDEFINED_BEHAVIOUR, r)
      else if last repository_path \<noteq> CHR ''/'' \<and> GIT_PATH_MAX F < length repository_path + 2
      then (Some UNDEFINED_BEHAVIOUR, r)
      else
        (let path_aux = (if last repository_path \<noteq> CHR ''/'' then repository_path @ ''/''
                         else repository_path);
             path_len = length path_aux;
             r1 = r\<lparr>path_repository := Some path_aux\<rparr>
         in if GIT_PATH_MAX F < path_len + length GIT_OBJECTS_FOLDER + 1
            then (Some UNDEFINED_BEHAVIOUR, r1)
            else if \<not> gitfo_isdir F (path_aux @ GIT_OBJECTS_FOLDER) then (Some GIT_ENOTAREPO, r1)
            else
              (let r2 = r1\<lparr>path_odb := Some (path_aux @ GIT_OBJECTS_FOLDER)\<rparr>
               in if \<not> gitfo_exists F (path_aux @ GIT_HEAD_FILE) then (Some GIT_ENOTAREPO, r2)
                  else if path_len < 2 then (Some UNDEFINED_BEHAVIOUR, r2)
                  else
                    (case scan_back path_aux (path_len - 2) of
                       None \<Rightarrow> (Some UNDEFINED_BEHAVIOUR, r2)
                     | Some last_folder \<Rightarrow>
                         if drop last_folder path_aux = GIT_FOLDER
                         then (None,
                               r2\<lparr>is_bare := False,
                                     path_index := Some (path_aux @ GIT_INDEX_FILE),
                                     path_workdir := Some (take (last_folder + 1) path_aux)\<rparr>)
                         else (None, r2\<lparr>is_bare := True, path_workdir := None\<rparr>)))))"

text \<open>
  \<^verbatim>\<open>git_odb_close\<close> releases the backends and the database; \<^verbatim>\<open>git_odb_open\<close> on the
  database at address \<open>0\<close>.
\<close>

definition git_odb_open :: "platform \<Rightarrow> string \<Rightarrow> error + git_odb" where
  "git_odb_open F objects_dir =
     (if \<not> alloc_odb F then Inl GIT_ENOMEM
      else
        (case (case git_odb_backend_loose F objects_dir of
                 None \<Rightarrow> Inr (git_odb_new 0)
               | Some loose \<Rightarrow> git_odb_add_backend (git_odb_new 0) loose) of
           Inl e \<Rightarrow> Inl e
         | Inr d \<Rightarrow>
             (case git_odb_backend_pack F objects_dir of
                None \<Rightarrow> Inr d
              | Some packed \<Rightarrow> git_odb_add_backend d packed)))"

text \<open>
  A repository after \<^verbatim>\<open>git_repository__alloc\<close>: every field zero, the cache empty. The
  database pointer is \<^verbatim>\<open>NULL\<close> until \<^verbatim>\<open>git_odb_open\<close> has succeeded;
  the field \<open>db\<close> of the record has no meaning before.
\<close>

definition git_repository__alloc :: git_repository where
  "git_repository__alloc =
     \<lparr>db = git_odb_new 0, objects = Map.empty, path_repository = None, path_odb = None,
      path_index = None, path_workdir = None, is_bare = False\<rparr>"

text \<open>
  \<^verbatim>\<open>git_repository_open\<close>. Both failure branches go to \<^verbatim>\<open>cleanup\<close>, which calls
  \<^verbatim>\<open>git_repository_free\<close>, which calls \<^verbatim>\<open>git_odb_close(repo->db)\<close> with the
  database pointer still \<^verbatim>\<open>NULL\<close>: the assertion of \<^verbatim>\<open>git_odb_close\<close> fails. An
  undefined step is kept as such.
\<close>

definition git_repository_open :: "platform \<Rightarrow> string \<Rightarrow> error + git_repository" where
  "git_repository_open F path =
     (if \<not> alloc_repository F then Inl GIT_ENOMEM
      else
        (case guess_repository_folders F git_repository__alloc path of
           (Some e, r) \<Rightarrow>
             (if e = UNDEFINED_BEHAVIOUR then Inl UNDEFINED_BEHAVIOUR else Inl ASSERT_FAILED)
         | (None, r) \<Rightarrow>
             (case path_odb r of
                None \<Rightarrow> Inl UNDEFINED_BEHAVIOUR
              | Some dir \<Rightarrow>
                  (case git_odb_open F dir of
                     Inl e \<Rightarrow> Inl ASSERT_FAILED
                   | Inr d \<Rightarrow> Inr (r\<lparr>db := d\<rparr>)))))"

text \<open>A platform on which exactly the given directories and files exist.\<close>

definition platform_of :: "string list \<Rightarrow> string list \<Rightarrow> platform" where
  "platform_of dirs files =
     \<lparr>GIT_PATH_MAX = 4096,
      gitfo_isdir = (\<lambda>p. p \<in> set dirs),
      gitfo_exists = (\<lambda>p. p \<in> set dirs \<or> p \<in> set files),
      alloc_repository = True, alloc_odb = True,
      git_odb_backend_loose = (\<lambda>p. Some (failing GIT_ENOTFOUND)),
      git_odb_backend_pack = (\<lambda>p. None)\<rparr>"

section \<open>Properties of the raw-object hash\<close>

lemma length_dec: "0 < k \<Longrightarrow> n < 10 ^ k \<Longrightarrow> length (dec n) \<le> k"
proof (induction n arbitrary: k rule: dec.induct)
  case (1 n)
  show ?case
  proof (cases "n < 10")
    case True
    with "1.prems" show ?thesis by (simp add: dec.simps [of n])
  next
    case False
    with "1.prems" have k: "1 < k"
      by (cases "k = 1") auto
    then obtain j where j: "k = Suc j" "0 < j"
      by (cases k) auto
    from "1.prems" j have "n div 10 < 10 ^ j"
      by (simp add: less_mult_imp_div_less mult.commute)
    with "1.IH" [OF False, of j] j have "length (dec (n div 10)) \<le> j" by simp
    with False j show ?thesis by (simp add: dec.simps [of n])
  qed
qed

lemma length_dec_size_t: "n < 2 ^ 64 \<Longrightarrow> length (dec n) \<le> 20"
proof -
  assume "n < 2 ^ 64"
  moreover have "(2::nat) ^ 64 < 10 ^ 20" by simp
  ultimately have "n < 10 ^ 20" by linarith
  then show ?thesis using length_dec [of 20 n] by simp
qed

lemma loose_tostring:
  "git_otype_is_loose t \<Longrightarrow> git_otype_tostring t \<in> {''commit'', ''tree'', ''blob'', ''tag''}"
  by (cases t) (simp_all add: git_otype_is_loose_def git_otype_tostring_def obj_type_table_def)

lemma loose_iff:
  "git_otype_is_loose t \<longleftrightarrow> t \<in> {GIT_OBJ_COMMIT, GIT_OBJ_TREE, GIT_OBJ_BLOB, GIT_OBJ_TAG}"
  by (cases t) (simp_all add: git_otype_is_loose_def obj_type_table_def)

lemma loose_tostring_length:
  "git_otype_is_loose t \<Longrightarrow> 0 < length (git_otype_tostring t) \<and> length (git_otype_tostring t) \<le> 6"
  using loose_tostring [of t] by auto

lemma tostring_spec:
  "t \<in> {GIT_OBJ_COMMIT, GIT_OBJ_TREE, GIT_OBJ_BLOB, GIT_OBJ_TAG} \<Longrightarrow>
   git_otype_tostring t = spec_type_name t"
  by (auto simp: git_otype_tostring_def obj_type_table_def)

text \<open>
  C1. For a raw object whose type is one of commit, tree, blob and tag, whose \<open>len\<close>
  bytes of data are readable (the data pointer may be \<^verbatim>\<open>NULL\<close> only when the length
  is zero) and whose length is a \<^verbatim>\<open>size_t\<close>, \<^verbatim>\<open>git_rawobj_hash\<close> succeeds with
  the digest of: the name of the type as the specification gives it (\<open>commit\<close>,
  \<open>tree\<close>, \<open>blob\<close>, \<open>tag\<close>), one space, the decimal length, one NUL, and then the
  payload bytes, with nothing in between.
\<close>

theorem git_rawobj_hash_preimage:
  assumes "otype obj \<in> {GIT_OBJ_COMMIT, GIT_OBJ_TREE, GIT_OBJ_BLOB, GIT_OBJ_TAG}"
    and "data obj = NULL \<longrightarrow> len obj = 0"
    and "rd h (data obj) (len obj) = Some payload"
    and "len obj < 2 ^ 64"
  shows "git_rawobj_hash H h obj =
           Inr (H (spec_type_name (otype obj) @ '' '' @ dec (len obj) @ [NUL] @ payload))"
proof -
  from assms(1) have loose: "git_otype_is_loose (otype obj)"
    by (simp add: loose_iff)
  let ?s = "git_otype_tostring (otype obj) @ '' '' @ dec (len obj)"
  have l: "0 < length ?s" "length ?s < 64"
    using loose_tostring_length [OF loose] length_dec_size_t [OF assms(4)] by auto
  then have fmt: "format_object_header 64 obj = Inr (?s @ [NUL], length ?s + 1)"
    by (simp add: format_object_header_def snprintf_def Let_def)
  have "git_odb__hash_obj H h 64 obj =
          Inr (H (?s @ [NUL] @ payload), ?s @ [NUL], length ?s + 1)"
    using loose assms(2,3) fmt by (simp add: git_odb__hash_obj_def git_hash_vec_def)
  then show ?thesis
    using tostring_spec [OF assms(1)] by (simp add: git_rawobj_hash_def)
qed

theorem git_rawobj_hash_preimage_witness:
  "git_rawobj_hash id hello_heap hello_blob = Inr (''blob 5'' @ [NUL] @ ''hello'')
   \<and> git_rawobj_hash id hello_heap empty_commit = Inr (''commit 0'' @ [NUL])
   \<and> git_rawobj_hash id hello_heap tree_obj = Inr (''tree 3'' @ [NUL] @ ''llo'')
   \<and> git_rawobj_hash id hello_heap tag_obj = Inr (''tag 2'' @ [NUL] @ ''he'')"
proof -
  have r: "rd hello_heap (data hello_blob) (len hello_blob) = Some ''hello''"
    "rd hello_heap (data empty_commit) (len empty_commit) = Some []"
    "rd hello_heap (data tree_obj) (len tree_obj) = Some ''llo''"
    "rd hello_heap (data tag_obj) (len tag_obj) = Some ''he''"
    by (simp_all add: hello_blob_def empty_commit_def tree_obj_def tag_obj_def
          hello_heap_def rd_def)
  have 1: "git_rawobj_hash id hello_heap hello_blob = Inr (''blob 5'' @ [NUL] @ ''hello'')"
    using git_rawobj_hash_preimage [OF _ _ r(1), of id]
    by (simp add: hello_blob_def dec.simps)
  have 2: "git_rawobj_hash id hello_heap empty_commit = Inr (''commit 0'' @ [NUL])"
    using git_rawobj_hash_preimage [OF _ _ r(2), of id]
    by (simp add: empty_commit_def dec.simps)
  have 3: "git_rawobj_hash id hello_heap tree_obj = Inr (''tree 3'' @ [NUL] @ ''llo'')"
    using git_rawobj_hash_preimage [OF _ _ r(3), of id]
    by (simp add: tree_obj_def dec.simps)
  have 4: "git_rawobj_hash id hello_heap tag_obj = Inr (''tag 2'' @ [NUL] @ ''he'')"
    using git_rawobj_hash_preimage [OF _ _ r(4), of id]
    by (simp add: tag_obj_def dec.simps)
  from 1 2 3 4 show ?thesis by simp
qed

section \<open>Properties of the object database\<close>

lemma read_loop_done: "read_loop bs oid (None, out, h) = (None, out, h)"
  by (cases bs) simp_all

lemma read_loop_all_fail:
  assumes "\<forall>b\<in>set bs. \<forall>out h. fst (read b out oid h) = st b"
    and "\<forall>b\<in>set bs. st b \<noteq> None"
  shows "fst (read_loop bs oid (Some e, out, h)) = (if bs = [] then Some e else st (last bs))"
  using assms
proof (induction bs arbitrary: e out h)
  case Nil
  then show ?case by simp
next
  case (Cons b bs)
  obtain e1 out1 h1 where r: "read b out oid h = (e1, out1, h1)"
    by (cases "read b out oid h") auto
  from Cons.prems r have "e1 = st b" by (metis fst_conv list.set_intros(1))
  with Cons.prems obtain e2 where e2: "e1 = Some e2" "st b = Some e2" by auto
  have "fst (read_loop bs oid (Some e2, out1, h1)) = (if bs = [] then Some e2 else st (last bs))"
    using Cons.IH [of e2 out1 h1] Cons.prems by simp
  with r e2 show ?case by simp
qed

lemma read_loop_first:
  assumes "\<forall>p\<in>set pre. \<forall>out h. fst (read p out oid h) \<noteq> None"
    and "\<forall>out h. fst (read b out oid h) = None"
  shows "\<exists>out1 h1. read_loop (pre @ b # post) oid (Some e, out, h) = read b out1 oid h1"
  using assms(1)
proof (induction pre arbitrary: e out h)
  case Nil
  obtain e1 out1 h1 where r: "read b out oid h = (e1, out1, h1)"
    by (cases "read b out oid h") auto
  with assms(2) have "e1 = None" by (metis fst_conv)
  with r have "read_loop ([] @ b # post) oid (Some e, out, h) = read b out oid h"
    by (simp add: read_loop_done)
  then show ?case by blast
next
  case (Cons p pre)
  obtain e1 out1 h1 where r: "read p out oid h = (e1, out1, h1)"
    by (cases "read p out oid h") auto
  with Cons.prems have "e1 \<noteq> None" by (metis fst_conv list.set_intros(1))
  then obtain e2 where e2: "e1 = Some e2" by auto
  from Cons.IH [of e2 out1 h1] Cons.prems
  obtain out2 h2 where "read_loop (pre @ b # post) oid (Some e2, out1, h1) = read b out2 oid h2"
    by auto
  with r e2 show ?case by auto
qed

lemma read_loop_some_success:
  assumes "\<forall>b\<in>set bs. \<forall>out h. fst (read b out oid h) = st b"
    and "\<exists>b\<in>set bs. st b = None"
  shows "fst (read_loop bs oid (Some e, out, h)) = None"
  using assms
proof (induction bs arbitrary: e out h)
  case Nil
  then show ?case by simp
next
  case (Cons b bs)
  obtain e1 out1 h1 where r: "read b out oid h = (e1, out1, h1)"
    by (cases "read b out oid h") auto
  from Cons.prems r have e1: "e1 = st b" by (metis fst_conv list.set_intros(1))
  show ?case
  proof (cases e1)
    case None
    with r show ?thesis by (simp add: read_loop_done)
  next
    case (Some e2)
    with e1 Cons.prems(2) have "\<exists>b\<in>set bs. st b = None" by auto
    with Cons.IH [of e2 out1 h1] Cons.prems(1)
    have "fst (read_loop bs oid (Some e2, out1, h1)) = None" by simp
    with r Some show ?thesis by simp
  qed
qed

lemma int32_small: "- (2 ^ 31) \<le> x \<Longrightarrow> x < 2 ^ 31 \<Longrightarrow> int32 x = x"
  by (simp add: int32_def)

lemma backend_sort_cmp_small:
  assumes "- (2 ^ 30) \<le> priority a \<and> priority a < 2 ^ 30"
    and "- (2 ^ 30) \<le> priority b \<and> priority b < 2 ^ 30"
  shows "backend_sort_cmp a b \<le> 0 \<longleftrightarrow> priority b \<le> priority a"
proof -
  from assms have "int32 (priority b - priority a) = priority b - priority a"
    by (intro int32_small) simp_all
  then show ?thesis by (simp add: backend_sort_cmp_def)
qed

lemma set_vector_insort: "set (vector_insort cmp x bs) = insert x (set bs)"
  by (induction bs) auto

lemma set_git_vector_sort: "set (git_vector_sort cmp bs) = set bs"
  unfolding git_vector_sort_def by (induction bs) (simp_all add: set_vector_insort)

lemma sorted_vector_insort:
  assumes "sorted_wrt (\<lambda>a b. priority b \<le> priority a) bs"
    and "\<forall>b\<in>insert x (set bs). - (2 ^ 30) \<le> priority b \<and> priority b < 2 ^ 30"
  shows "sorted_wrt (\<lambda>a b. priority b \<le> priority a) (vector_insort backend_sort_cmp x bs)"
  using assms
proof (induction bs)
  case Nil
  then show ?case by simp
next
  case (Cons y ys)
  from Cons.prems(2) have c: "backend_sort_cmp x y \<le> 0 \<longleftrightarrow> priority y \<le> priority x"
    by (intro backend_sort_cmp_small) simp_all
  show ?case
  proof (cases "backend_sort_cmp x y \<le> 0")
    case True
    with c Cons.prems(1) show ?thesis by auto
  next
    case False
    with c have "priority x \<le> priority y" by simp
    moreover from Cons.prems
    have "sorted_wrt (\<lambda>a b. priority b \<le> priority a) (vector_insort backend_sort_cmp x ys)"
      by (intro Cons.IH) simp_all
    ultimately show ?thesis
      using False Cons.prems(1) by (auto simp: set_vector_insort)
  qed
qed

lemma sorted_git_vector_sort:
  "\<forall>b\<in>set bs. - (2 ^ 30) \<le> priority b \<and> priority b < 2 ^ 30 \<Longrightarrow>
   sorted_wrt (\<lambda>a b. priority b \<le> priority a) (git_vector_sort backend_sort_cmp bs)"
proof (induction bs)
  case Nil
  then show ?case by (simp add: git_vector_sort_def)
next
  case (Cons x xs)
  then have "sorted_wrt (\<lambda>a b. priority b \<le> priority a) (git_vector_sort backend_sort_cmp xs)"
    by simp
  moreover from Cons.prems
  have "\<forall>b\<in>insert x (set (git_vector_sort backend_sort_cmp xs)).
          - (2 ^ 30) \<le> priority b \<and> priority b < 2 ^ 30"
    by (simp add: set_git_vector_sort)
  ultimately have "sorted_wrt (\<lambda>a b. priority b \<le> priority a)
      (vector_insort backend_sort_cmp x (git_vector_sort backend_sort_cmp xs))"
    by (rule sorted_vector_insort)
  then show ?case by (simp add: git_vector_sort_def)
qed

lemma odb_built_sorted:
  assumes "odb_built database" and "priorities_small database"
  shows "sorted_wrt (\<lambda>a b. priority b \<le> priority a) (backends database)"
proof (cases rule: odb_built.cases [OF assms(1)])
  case (1 a)
  then show ?thesis by (simp add: git_odb_new_def)
next
  case (2 d backend)
  then have b: "backends database =
      git_vector_sort backend_sort_cmp (backends d @ [backend\<lparr>odb := Some (self d)\<rparr>])"
    by (auto simp: git_odb_add_backend_def split: if_splits)
  with assms(2)
  have "\<forall>b\<in>set (backends d @ [backend\<lparr>odb := Some (self d)\<rparr>]).
          - (2 ^ 30) \<le> priority b \<and> priority b < 2 ^ 30"
    by (simp add: priorities_small_def set_git_vector_sort)
  from sorted_git_vector_sort [OF this] b show ?thesis by simp
qed

text \<open>
  C5, as the code has it. \<^verbatim>\<open>git_odb_read\<close> asks the backends in their stored order,
  which is by descending priority for every database built with
  \<^verbatim>\<open>git_odb_add_backend\<close> whose priorities lie between \<open>- 2 ^ 30\<close> and
  \<open>2 ^ 30 - 1\<close>; the first backend that succeeds ends the loop and its answer is the
  answer of the call. The call fails if and only if every backend fails, and it then
  returns the code of the last backend asked (\<^verbatim>\<open>GIT_ENOTFOUND\<close> when there is no
  backend): so it fails with \<^verbatim>\<open>GIT_ENOTFOUND\<close> if and only if every backend fails and
  the last one, if any, reports not-found, in particular whenever every backend reports
  not-found. Here \<open>st b\<close> is the code with which backend \<open>b\<close> answers a read of \<open>oid\<close>.
\<close>

theorem git_odb_read_last_error:
  assumes "\<forall>b\<in>set (backends database). \<forall>out h. fst (read b out oid h) = st b"
  shows "(fst (git_odb_read out database oid h) = Some GIT_ENOTFOUND \<longleftrightarrow>
            (\<forall>b\<in>set (backends database). st b \<noteq> None) \<and>
            (backends database = [] \<or> st (last (backends database)) = Some GIT_ENOTFOUND))
       \<and> (\<forall>pre b post.
            backends database = pre @ b # post \<and> (\<forall>p\<in>set pre. st p \<noteq> None) \<and> st b = None \<longrightarrow>
            (\<exists>out1 h1. git_odb_read out database oid h = read b out1 oid h1))
       \<and> ((\<forall>b\<in>set (backends database). st b = Some GIT_ENOTFOUND) \<longrightarrow>
            fst (git_odb_read out database oid h) = Some GIT_ENOTFOUND)
       \<and> (odb_built database \<and> priorities_small database \<longrightarrow>
            sorted_wrt (\<lambda>a b. priority b \<le> priority a) (backends database))
       \<and> (fst (git_odb_read out database oid h) \<noteq> None \<longleftrightarrow>
            (\<forall>b\<in>set (backends database). st b \<noteq> None))
       \<and> ((\<forall>b\<in>set (backends database). st b \<noteq> None) \<longrightarrow>
            fst (git_odb_read out database oid h) =
              (if backends database = [] then Some GIT_ENOTFOUND
               else st (last (backends database))))"
proof (intro conjI)
  show iff: "fst (git_odb_read out database oid h) = Some GIT_ENOTFOUND \<longleftrightarrow>
            (\<forall>b\<in>set (backends database). st b \<noteq> None) \<and>
            (backends database = [] \<or> st (last (backends database)) = Some GIT_ENOTFOUND)"
  proof (cases "\<forall>b\<in>set (backends database). st b \<noteq> None")
    case True
    from read_loop_all_fail [OF assms True, of GIT_ENOTFOUND out h] True
    show ?thesis by (auto simp: git_odb_read_def)
  next
    case False
    then have "\<exists>b\<in>set (backends database). st b = None" by simp
    from read_loop_some_success [OF assms this, of GIT_ENOTFOUND out h] False
    show ?thesis by (simp add: git_odb_read_def)
  qed
  show "\<forall>pre b post.
          backends database = pre @ b # post \<and> (\<forall>p\<in>set pre. st p \<noteq> None) \<and> st b = None \<longrightarrow>
          (\<exists>out1 h1. git_odb_read out database oid h = read b out1 oid h1)"
  proof (intro allI impI)
    fix pre b post
    assume a: "backends database = pre @ b # post \<and> (\<forall>p\<in>set pre. st p \<noteq> None) \<and> st b = None"
    with assms have "\<forall>p\<in>set pre. \<forall>out h. fst (read p out oid h) \<noteq> None"
      by simp
    moreover from a assms have "\<forall>out h. fst (read b out oid h) = None"
      by simp
    ultimately show "\<exists>out1 h1. git_odb_read out database oid h = read b out1 oid h1"
      using a read_loop_first [of pre oid b post GIT_ENOTFOUND out h]
      by (simp add: git_odb_read_def)
  qed
  show "(\<forall>b\<in>set (backends database). st b = Some GIT_ENOTFOUND) \<longrightarrow>
          fst (git_odb_read out database oid h) = Some GIT_ENOTFOUND"
  proof
    assume a: "\<forall>b\<in>set (backends database). st b = Some GIT_ENOTFOUND"
    then have "\<forall>b\<in>set (backends database). st b \<noteq> None" by simp
    moreover from a have "backends database = [] \<or> st (last (backends database)) = Some GIT_ENOTFOUND"
      by (cases "backends database = []") simp_all
    ultimately show "fst (git_odb_read out database oid h) = Some GIT_ENOTFOUND"
      using iff by blast
  qed
  show "odb_built database \<and> priorities_small database \<longrightarrow>
          sorted_wrt (\<lambda>a b. priority b \<le> priority a) (backends database)"
    by (simp add: odb_built_sorted)
  show last: "(\<forall>b\<in>set (backends database). st b \<noteq> None) \<longrightarrow>
          fst (git_odb_read out database oid h) =
            (if backends database = [] then Some GIT_ENOTFOUND
             else st (last (backends database)))"
  proof
    assume a: "\<forall>b\<in>set (backends database). st b \<noteq> None"
    from read_loop_all_fail [OF assms a, of GIT_ENOTFOUND out h]
    show "fst (git_odb_read out database oid h) =
            (if backends database = [] then Some GIT_ENOTFOUND
             else st (last (backends database)))"
      by (simp add: git_odb_read_def)
  qed
  show "fst (git_odb_read out database oid h) \<noteq> None \<longleftrightarrow>
          (\<forall>b\<in>set (backends database). st b \<noteq> None)"
  proof (cases "\<forall>b\<in>set (backends database). st b \<noteq> None")
    case True
    then have l: "backends database \<noteq> [] \<longrightarrow> st (last (backends database)) \<noteq> None"
      by simp
    from last True l show ?thesis by (cases "backends database = []") simp_all
  next
    case False
    then have "\<exists>b\<in>set (backends database). st b = None" by simp
    from read_loop_some_success [OF assms this, of GIT_ENOTFOUND out h] False
    show ?thesis by (simp add: git_odb_read_def)
  qed
qed

theorem git_odb_read_last_error_witness:
  "fst (git_odb_read out0 db_err_nf ''k'' heap0) = Some GIT_ENOTFOUND
   \<and> fst (git_odb_read out0 db_nf_err ''k'' heap0) = Some GIT_ERROR
   \<and> git_odb_read out0 db_err_hello ''k'' heap0 = (None, hello_blob, heap0)
   \<and> map priority (backends db_10_20) = [20, 10]
   \<and> sorted_wrt (\<lambda>a b. priority b \<le> priority a) (backends db_10_20)"
proof -
  let ?st = "\<lambda>b. fst (read b out0 ''k'' heap0)"
  have nf: "\<forall>b\<in>set (backends db_err_nf). \<forall>out h. fst (read b out ''k'' h) = ?st b"
    by (simp add: db_err_nf_def failing_def)
  have "(\<forall>b\<in>set (backends db_err_nf). ?st b \<noteq> None) \<and>
        (backends db_err_nf = [] \<or> ?st (last (backends db_err_nf)) = Some GIT_ENOTFOUND)"
    by (simp add: db_err_nf_def failing_def)
  with git_odb_read_last_error [OF nf, of out0 heap0]
  have 1: "fst (git_odb_read out0 db_err_nf ''k'' heap0) = Some GIT_ENOTFOUND"
    by blast
  have en: "\<forall>b\<in>set (backends db_nf_err). \<forall>out h. fst (read b out ''k'' h) = ?st b"
    by (simp add: db_nf_err_def failing_def)
  have f: "\<forall>b\<in>set (backends db_nf_err). ?st b \<noteq> None"
    by (simp add: db_nf_err_def failing_def)
  with git_odb_read_last_error [OF en, of out0 heap0]
  have "fst (git_odb_read out0 db_nf_err ''k'' heap0) =
          (if backends db_nf_err = [] then Some GIT_ENOTFOUND
           else ?st (last (backends db_nf_err)))"
    by blast
  then have 2: "fst (git_odb_read out0 db_nf_err ''k'' heap0) = Some GIT_ERROR"
    by (simp add: db_nf_err_def failing_def)
  have 3: "git_odb_read out0 db_err_hello ''k'' heap0 = (None, hello_blob, heap0)"
    by (simp add: git_odb_read_def db_err_hello_def failing_def serving_def)
  have e: "git_odb_add_backend (git_odb_new 0) (with_priority 10) = Inr db_10"
    "git_odb_add_backend db_10 (with_priority 20) = Inr db_10_20"
    by (simp_all add: db_10_def db_10_20_def git_odb_add_backend_def git_odb_new_def
          with_priority_def failing_def)
  have b: "odb_built db_10_20"
    by (rule odb_built.add [OF odb_built.add [OF odb_built.new e(1)] e(2)])
  have p: "map priority (backends db_10_20) = [20, 10]"
    by (simp add: db_10_20_def db_10_def git_odb_add_backend_def git_odb_new_def
          with_priority_def failing_def git_vector_sort_def backend_sort_cmp_def int32_def)
  have s: "priorities_small db_10_20"
    unfolding priorities_small_def
  proof
    fix b
    assume "b \<in> set (backends db_10_20)"
    then have "priority b \<in> set (map priority (backends db_10_20))" by simp
    with p have "priority b \<in> {20, 10}" by simp
    then show "- (2 ^ 30) \<le> priority b \<and> priority b < 2 ^ 30" by auto
  qed
  have st: "\<forall>b\<in>set (backends db_10_20). \<forall>out h.
              fst (read b out ''k'' h) = Some GIT_ENOTFOUND"
    by (simp add: db_10_20_def db_10_def git_odb_add_backend_def git_odb_new_def
          with_priority_def failing_def set_git_vector_sort)
  from git_odb_read_last_error [of db_10_20 "''k''" "\<lambda>b. Some GIT_ENOTFOUND" out0 heap0] st b s
  have 4: "sorted_wrt (\<lambda>a b. priority b \<le> priority a) (backends db_10_20)"
    by blast
  from 1 2 3 p 4 show ?thesis by simp
qed

text \<open>
  C5 as stated fails: with a first backend that reports \<^verbatim>\<open>GIT_ERROR\<close> and a second
  that reports not-found, the read fails with \<^verbatim>\<open>GIT_ENOTFOUND\<close> although not every
  backend reported not-found. And the stored order is not by descending priority for
  every database: added in this order, backends of priority \<open>2147483647\<close> and \<open>- 2\<close>
  are stored with the lower priority first, the difference that compares them having
  wrapped around.
\<close>

theorem git_odb_read_notfound_counterexample:
  "fst (git_odb_read out0 db_err_nf ''k'' heap0) = Some GIT_ENOTFOUND
   \<and> backends db_err_nf = [failing GIT_ERROR, failing GIT_ENOTFOUND]
   \<and> fst (read (failing GIT_ERROR) out0 ''k'' heap0) = Some GIT_ERROR
   \<and> odb_built db_overflow
   \<and> map priority (backends db_overflow) = [- 2, 2147483647]"
proof -
  have 1: "fst (git_odb_read out0 db_err_nf ''k'' heap0) = Some GIT_ENOTFOUND
           \<and> backends db_err_nf = [failing GIT_ERROR, failing GIT_ENOTFOUND]
           \<and> fst (read (failing GIT_ERROR) out0 ''k'' heap0) = Some GIT_ERROR"
    by (simp add: git_odb_read_def db_err_nf_def failing_def)
  let ?d = "\<lparr>self = 0, backends = [(with_priority 2147483647)\<lparr>odb := Some 0\<rparr>]\<rparr>"
  have a: "git_odb_add_backend (git_odb_new 0) (with_priority 2147483647) = Inr ?d"
    by (simp add: git_odb_add_backend_def git_odb_new_def with_priority_def failing_def
          git_vector_sort_def)
  have b: "git_odb_add_backend ?d (with_priority (- 2)) = Inr db_overflow"
    by (simp add: db_overflow_def git_odb_add_backend_def git_odb_new_def with_priority_def
          failing_def git_vector_sort_def)
  have 2: "odb_built db_overflow"
    by (rule odb_built.add [OF odb_built.add [OF odb_built.new a] b])
  have 3: "map priority (backends db_overflow) = [- 2, 2147483647]"
    by (simp add: db_overflow_def git_odb_add_backend_def git_odb_new_def
          with_priority_def failing_def git_vector_sort_def backend_sort_cmp_def int32_def)
  from 1 2 3 show ?thesis by simp
qed

lemma read_header_loop_all_fail:
  assumes "\<forall>b\<in>set bs. \<forall>f. read_header b = Some f \<longrightarrow> (\<forall>out h. fst (f out oid h) \<noteq> None)"
  shows "fst (read_header_loop bs oid (Some e, out, h)) \<noteq> None"
  using assms
proof (induction bs arbitrary: e out h)
  case Nil
  then show ?case by simp
next
  case (Cons b bs)
  from Cons.prems
  have rest: "\<forall>b\<in>set bs. \<forall>f. read_header b = Some f \<longrightarrow> (\<forall>out h. fst (f out oid h) \<noteq> None)"
    by simp
  show ?case
  proof (cases "read_header b")
    case None
    with Cons.IH [OF rest, of e out h] show ?thesis by simp
  next
    case (Some f)
    obtain e1 out1 h1 where r: "f out oid h = (e1, out1, h1)"
      by (cases "f out oid h") auto
    from Cons.prems Some have "fst (f out oid h) \<noteq> None" by simp
    with r have "e1 \<noteq> None" by simp
    then obtain e2 where "e1 = Some e2" by auto
    with Cons.IH [OF rest, of e2 out1 h1] r Some show ?thesis by simp
  qed
qed

lemma read_header_loop_no_capability:
  "\<forall>b\<in>set bs. read_header b = None \<Longrightarrow> read_header_loop bs oid (Some e, out, h) = (Some e, out, h)"
  by (induction bs) simp_all

text \<open>
  C6. When every backend either has no \<^verbatim>\<open>read_header\<close> or fails the header-only read
  of \<open>oid\<close>, and the object is present, so that the full \<^verbatim>\<open>git_odb_read\<close> that follows
  the header probes succeeds with the raw object \<open>r\<close>, then \<^verbatim>\<open>git_odb_read_header\<close>
  succeeds with the type and the length of \<open>r\<close> and no bytes: the data pointer is cleared
  and the buffer that the read returned has been released. When no backend has the
  capability, the probes leave the \<^verbatim>\<open>out\<close> structure and the memory as they were.
\<close>

theorem git_odb_read_header_fallback:
  assumes "\<forall>b\<in>set (backends database). \<forall>f. read_header b = Some f \<longrightarrow>
             (\<forall>out h. fst (f out oid h) \<noteq> None)"
    and "read_header_loop (backends database) oid (Some GIT_ENOTFOUND, out, h) = (e, out1, h1)"
    and "git_odb_read out1 database oid h1 = (None, r, h2)"
  shows "git_odb_read_header out database oid h = (None, r\<lparr>data := NULL\<rparr>, free (data r) h2)
       \<and> ((\<forall>b\<in>set (backends database). read_header b = None) \<longrightarrow> out1 = out \<and> h1 = h)"
proof -
  from read_header_loop_all_fail [OF assms(1), of GIT_ENOTFOUND out h] assms(2)
  have "e \<noteq> None" by simp
  with assms(2,3) have "git_odb_read_header out database oid h = (None, r\<lparr>data := NULL\<rparr>, free (data r) h2)"
    by (simp add: git_odb_read_header_def git_rawobj_close_def)
  moreover have "(\<forall>b\<in>set (backends database). read_header b = None) \<longrightarrow> out1 = out \<and> h1 = h"
    using assms(2) read_header_loop_no_capability [of "backends database" oid GIT_ENOTFOUND out h]
    by auto
  ultimately show ?thesis by simp
qed

theorem git_odb_read_header_fallback_witness:
  "git_odb_read_header out0 db_hello ''k'' heap0 =
     (None, \<lparr>data = NULL, len = 5, otype = GIT_OBJ_BLOB\<rparr>,
      \<lparr>blocks = Map.empty, brk = 1, avail = 65536\<rparr>)"
proof -
  let ?r = "\<lparr>data = Ptr 0 0, len = 5, otype = GIT_OBJ_BLOB\<rparr>"
  let ?h2 = "\<lparr>blocks = Map.empty(0 \<mapsto> ''hello''), brk = 1, avail = 65531\<rparr>"
  have 1: "\<forall>b\<in>set (backends db_hello). \<forall>f. read_header b = Some f \<longrightarrow>
             (\<forall>out h. fst (f out ''k'' h) \<noteq> None)"
    by (simp add: db_hello_def holding_def)
  have 2: "read_header_loop (backends db_hello) ''k'' (Some GIT_ENOTFOUND, out0, heap0) =
             (Some GIT_ENOTFOUND, out0, heap0)"
    by (simp add: db_hello_def holding_def)
  have 3: "git_odb_read out0 db_hello ''k'' heap0 = (None, ?r, ?h2)"
    by (simp add: git_odb_read_def db_hello_def holding_def git__malloc_def heap0_def)
  from git_odb_read_header_fallback [OF 1 2 3]
  show ?thesis by (simp add: free_def)
qed

section \<open>Properties of the object cache and of the write-back\<close>

lemma source_close_fields:
  "git_object__source_close h ob = (h1, ob1) \<Longrightarrow>
     obj_id ob1 = obj_id ob \<and> in_memory ob1 = in_memory ob \<and> modified ob1 = modified ob
     \<and> \<not> opened (source ob1) \<and> otype (raw (source ob1)) = otype (raw (source ob))"
  by (auto simp: git_object__source_close_def git_rawobj_close_def split: if_splits)

lemma prepare_write_fields:
  "prepare_write h ob = (h1, ob1) \<Longrightarrow>
     obj_id ob1 = obj_id ob \<and> in_memory ob1 = in_memory ob \<and> modified ob1 = modified ob
     \<and> otype (raw (source ob1)) = otype (raw (source ob))"
  by (auto simp: prepare_write_def git_object__source_close_def git_rawobj_close_def
           split: if_splits prod.splits)

text \<open>
  C4. A digest that is bound in the cache is answered from the cache: the lookup returns
  the cached object and changes nothing, whatever the expected type. And a lookup that
  succeeds leaves the digest bound to the object it returned, so that a second lookup of
  the same digest, with any expected type, returns the same object.
\<close>

theorem git_repository_lookup_cached:
  "(git_hashtable_lookup (objects (repo w)) oid = Some a \<longrightarrow>
      git_repository_lookup C w oid t = (Inr a, w))
   \<and> (git_repository_lookup C w oid t = (Inr a, w1) \<longrightarrow>
      git_repository_lookup C w1 oid t' = (Inr a, w1))"
proof (intro conjI impI)
  assume "git_hashtable_lookup (objects (repo w)) oid = Some a"
  then show "git_repository_lookup C w oid t = (Inr a, w)"
    by (simp add: git_repository_lookup_def)
next
  assume r: "git_repository_lookup C w oid t = (Inr a, w1)"
  have "git_hashtable_lookup (objects (repo w1)) oid = Some a"
  proof (cases "git_hashtable_lookup (objects (repo w)) oid")
    case (Some b)
    with r show ?thesis by (simp add: git_repository_lookup_def)
  next
    case None
    with r show ?thesis
      by (auto simp: git_repository_lookup_def Let_def git_hashtable_insert_def
                     git_hashtable_lookup_def git_object__source_close_def
               split: prod.splits option.splits if_splits sum.splits)
  qed
  then show "git_repository_lookup C w1 oid t' = (Inr a, w1)"
    by (simp add: git_repository_lookup_def)
qed
lemma lookup_tree_any:
  "fst (git_repository_lookup collab0 world_tree ''k'' GIT_OBJ_ANY) = Inr 1"
  by (simp add: git_repository_lookup_def world_tree_def repo_of_def git_hashtable_lookup_def
        git_odb_read_def holding_def git__malloc_def heap0_def alloc_object_def
        object_sizes_def collab0_def typed_def rd_def Let_def zero_object_def
        git_object__source_close_def git_rawobj_close_def)

theorem git_repository_lookup_cached_witness:
  "fst (git_repository_lookup collab0 world_tree ''k'' GIT_OBJ_ANY) = Inr 1
   \<and> fst (git_repository_lookup collab0
           (snd (git_repository_lookup collab0 world_tree ''k'' GIT_OBJ_ANY))
           ''k'' GIT_OBJ_COMMIT) = Inr 1"
proof -
  let ?w1 = "snd (git_repository_lookup collab0 world_tree ''k'' GIT_OBJ_ANY)"
  have r: "git_repository_lookup collab0 world_tree ''k'' GIT_OBJ_ANY = (Inr 1, ?w1)"
    using lookup_tree_any by (metis prod.collapse)
  have "git_repository_lookup collab0 world_tree ''k'' GIT_OBJ_ANY = (Inr 1, ?w1) \<longrightarrow>
        git_repository_lookup collab0 ?w1 ''k'' GIT_OBJ_COMMIT = (Inr 1, ?w1)"
    by (rule conjunct2
          [OF git_repository_lookup_cached
                [of world_tree "''k''" 1 collab0 GIT_OBJ_ANY ?w1 GIT_OBJ_COMMIT]])
  then have "git_repository_lookup collab0 ?w1 ''k'' GIT_OBJ_COMMIT = (Inr 1, ?w1)"
    using r by (rule mp)
  then have "fst (git_repository_lookup collab0 ?w1 ''k'' GIT_OBJ_COMMIT) = Inr 1"
    by (rule arg_cong [where f = fst, THEN trans]) simp
  with lookup_tree_any show ?thesis by blast
qed

text \<open>
  C2 at a concrete input. The cache is empty, the only backend holds a tree under the
  digest, and a commit is expected. The lookup fails with \<^verbatim>\<open>GIT_EINVALIDTYPE\<close> and
  leaves the cache and the typed objects as they were, but the buffer that the read
  allocated (block 0) is still allocated when the call returns, and nothing refers to it.
\<close>

theorem git_repository_lookup_mismatch_leaks:
  "fst (git_repository_lookup collab0 world_tree ''k'' GIT_OBJ_COMMIT) = Inl GIT_EINVALIDTYPE
   \<and> objects (repo (snd (git_repository_lookup collab0 world_tree ''k'' GIT_OBJ_COMMIT)))
       = objects (repo world_tree)
   \<and> objs (snd (git_repository_lookup collab0 world_tree ''k'' GIT_OBJ_COMMIT)) = objs world_tree
   \<and> blocks (mem world_tree) 0 = None
   \<and> blocks (mem (snd (git_repository_lookup collab0 world_tree ''k'' GIT_OBJ_COMMIT))) 0
       = Some ''hello''
   \<and> avail (mem (snd (git_repository_lookup collab0 world_tree ''k'' GIT_OBJ_COMMIT)))
       = avail (mem world_tree) - 5"
  by (simp add: git_repository_lookup_def world_tree_def repo_of_def git_hashtable_lookup_def
        git_odb_read_def holding_def git__malloc_def heap0_def)

lemma lookup_mismatch_general:
  assumes "git_hashtable_lookup (objects (repo w)) oid = None"
    and "git_odb_read out0 (db (repo w)) oid (mem w) = (None, obj_file, h1)"
    and "t \<noteq> GIT_OBJ_ANY" and "t \<noteq> otype obj_file"
  shows "git_repository_lookup C w oid t = (Inl GIT_EINVALIDTYPE, w\<lparr>mem := h1\<rparr>)"
  using assms by (simp add: git_repository_lookup_def)
lemma write_back_success:
  assumes "objs w a = Some ob" and "write_back w a = (None, w1)"
  shows "\<exists>ob1. objs w1 a = Some ob1 \<and> \<not> modified ob1 \<and> \<not> in_memory ob1
           \<and> \<not> opened (source ob1)
           \<and> objects (repo w1) =
               git_hashtable_insert
                 (if in_memory ob then objects (repo w)
                  else git_hashtable_remove (objects (repo w)) (obj_id ob))
                 (obj_id ob1) a"
proof -
  from assms have op: "opened (source ob)" "modified ob"
    by (auto simp: write_back_def split: if_splits)
  let ?ob1 = "ob\<lparr>source := (source ob)\<lparr>raw := (raw (source ob))\<lparr>len := written_bytes (source ob)\<rparr>\<rparr>\<rparr>"
  obtain e new_id h1 where w: "git_odb_write oid0 (db (repo w)) (raw (source ?ob1)) (mem w) = (e, new_id, h1)"
    by (cases "git_odb_write oid0 (db (repo w)) (raw (source ?ob1)) (mem w)") auto
  with assms op have e: "e = None"
    by (cases e) (simp_all add: write_back_def Let_def)
  let ?ob3 = "?ob1\<lparr>obj_id := new_id,
                source := (source ?ob1)\<lparr>write_ptr := NULL, written_bytes := 0\<rparr>,
                modified := False, in_memory := False\<rparr>"
  obtain h2 ob4 where c: "git_object__source_close h1 ?ob3 = (h2, ob4)"
    by (cases "git_object__source_close h1 ?ob3") auto
  from source_close_fields [OF c]
  have f: "obj_id ob4 = new_id" "\<not> in_memory ob4" "\<not> modified ob4" "\<not> opened (source ob4)"
    by simp_all
  from assms op w e c
  have "w1 = w\<lparr>mem := h2, objs := (objs w)(a \<mapsto> ob4),
               repo := (repo w)\<lparr>objects :=
                 git_hashtable_insert
                   (if in_memory ob then objects (repo w)
                    else git_hashtable_remove (objects (repo w)) (obj_id ob)) new_id a\<rparr>\<rparr>"
    by (auto simp: write_back_def Let_def)
  with f show ?thesis by simp
qed

lemma git_object_write_success:
  assumes "objs w a = Some ob0" and "modified ob0"
    and "git_object_write C w a = Some (None, w1)"
  shows "\<exists>ob h2. write_back (w\<lparr>mem := h2, objs := (objs w)(a \<mapsto> ob)\<rparr>) a = (None, w1)
           \<and> in_memory ob = in_memory ob0 \<and> obj_id ob = obj_id ob0"
proof -
  obtain h1 ob1 where p: "prepare_write (mem w) ob0 = (h1, ob1)"
    by (cases "prepare_write (mem w) ob0") auto
  from prepare_write_fields [OF p]
  have f: "obj_id ob1 = obj_id ob0" "in_memory ob1 = in_memory ob0" by simp_all
  let ?r = "if typed (otype (raw (source ob1)))
            then run_writeback (fst (writeback C (otype (raw (source ob1))) a))
                   (snd (writeback C (otype (raw (source ob1))) a)) h1 (source ob1)
            else Some (Some GIT_ERROR, h1, source ob1)"
  from assms p have g: "(case ?r of
           None \<Rightarrow> None
         | Some (Some e, h2, src2) \<Rightarrow>
             (case git_object__source_close h2 (ob1\<lparr>source := src2\<rparr>) of
                (h3, object3) \<Rightarrow> Some (Some e, w\<lparr>mem := h3, objs := (objs w)(a \<mapsto> object3)\<rparr>))
         | Some (None, h2, src2) \<Rightarrow>
             Some (write_back (w\<lparr>mem := h2, objs := (objs w)(a \<mapsto> ob1\<lparr>source := src2\<rparr>)\<rparr>) a))
         = Some (None, w1)"
    by (simp add: git_object_write_def)
  then obtain h2 src2 where r: "?r = Some (None, h2, src2)"
    by (auto split: option.splits prod.splits)
  with g have "write_back (w\<lparr>mem := h2, objs := (objs w)(a \<mapsto> ob1\<lparr>source := src2\<rparr>)\<rparr>) a = (None, w1)"
    by simp
  with f show ?thesis
    by (intro exI [of _ "ob1\<lparr>source := src2\<rparr>"] exI [of _ h2]) simp
qed

text \<open>
  C3. When \<^verbatim>\<open>git_object_write\<close> succeeds on a modified object, the object is afterwards
  neither modified nor in memory, a lookup of its digest with type \<^verbatim>\<open>ANY\<close> returns this
  very object and changes nothing, and the cache is the old cache with the binding of the
  old digest removed first, when the object was not in memory, and the new digest bound
  to the object then.
\<close>

theorem git_object_write_rebinds:
  assumes "objs w a = Some ob0" and "modified ob0"
    and "git_object_write C w a = Some (None, w1)"
  shows "\<exists>ob. objs w1 a = Some ob \<and> \<not> modified ob \<and> \<not> in_memory ob
           \<and> git_repository_lookup C w1 (obj_id ob) GIT_OBJ_ANY = (Inr a, w1)
           \<and> objects (repo w1) =
               git_hashtable_insert
                 (if in_memory ob0 then objects (repo w)
                  else git_hashtable_remove (objects (repo w)) (obj_id ob0))
                 (obj_id ob) a"
proof -
  from git_object_write_success [OF assms]
  obtain ob' h2 where wb: "write_back (w\<lparr>mem := h2, objs := (objs w)(a \<mapsto> ob')\<rparr>) a = (None, w1)"
    and f: "in_memory ob' = in_memory ob0" "obj_id ob' = obj_id ob0"
    by blast
  have "objs (w\<lparr>mem := h2, objs := (objs w)(a \<mapsto> ob')\<rparr>) a = Some ob'" by simp
  from write_back_success [OF this wb] f
  obtain ob where ob: "objs w1 a = Some ob" "\<not> modified ob" "\<not> in_memory ob"
    and tbl: "objects (repo w1) =
               git_hashtable_insert
                 (if in_memory ob0 then objects (repo w)
                  else git_hashtable_remove (objects (repo w)) (obj_id ob0))
                 (obj_id ob) a"
    by auto
  from tbl have "git_hashtable_lookup (objects (repo w1)) (obj_id ob) = Some a"
    by (simp add: git_hashtable_lookup_def git_hashtable_insert_def)
  then have "git_repository_lookup C w1 (obj_id ob) GIT_OBJ_ANY = (Inr a, w1)"
    by (simp add: git_repository_lookup_def)
  with ob tbl show ?thesis by blast
qed

lemma source_resize_opened:
  "source_resize h src = (e, h1, src1) \<Longrightarrow> opened src1 = opened src"
  by (auto simp: source_resize_def Let_def split: option.splits prod.splits ptr.splits)

lemma resize_loop_opened:
  assumes "resize_loop n h src = Some y"
  shows "opened (snd (snd y)) = opened src"
proof -
  let ?P = "\<lambda>(n::nat) (h::heap) src (y::status \<times> heap \<times> git_odb_source).
              opened (snd (snd y)) = opened src"
  have "?P n h src y"
  proof (rule resize_loop.raw_induct [where P = ?P, OF _ assms])
    fix loop :: "nat \<Rightarrow> heap \<Rightarrow> git_odb_source \<Rightarrow> (status \<times> heap \<times> git_odb_source) option"
    fix n h src y
    assume IH: "\<And>n h src y. loop n h src = Some y \<Longrightarrow> ?P n h src y"
      and prems: "(if len (raw src) \<le> size_t (written_bytes src + n)
           then case source_resize h src of
                (None, h1, src1) \<Rightarrow> loop n h1 src1
              | (Some e, h1, src1) \<Rightarrow>
                  Some (Some (if e = UNDEFINED_BEHAVIOUR then e else GIT_ENOMEM), h1, src1)
           else Some (None, h, src)) = Some y"
    show "?P n h src y"
    proof (cases "len (raw src) \<le> size_t (written_bytes src + n)")
      case False
      with prems show ?thesis by auto
    next
      case True
      obtain e h2 src2 where r: "source_resize h src = (e, h2, src2)"
        by (cases "source_resize h src") auto
      from source_resize_opened [OF r] have o: "opened src2 = opened src" .
      show ?thesis
      proof (cases e)
        case None
        with prems True r have "loop n h2 src2 = Some y" by simp
        from IH [OF this] o show ?thesis by simp
      next
        case (Some e')
        with prems True r o show ?thesis by auto
      qed
    qed
  qed
  then show ?thesis .
qed

lemma source_op_opened:
  assumes "source_op x h src = Some (e, h1, src1)"
  shows "opened src1 = opened src"
proof (cases x)
  case (Write bs)
  with assms have g: "git__source_write h src bs = Some (e, h1, src1)" by simp
  show ?thesis
  proof (cases "length bs < 2 ^ 64 \<and> opened src \<and> write_ptr src \<noteq> NULL")
    case False
    with g show ?thesis by (auto simp: git__source_write_def split: if_splits)
  next
    case True
    with g obtain y where l: "resize_loop (length bs) h src = Some y"
      by (cases "resize_loop (length bs) h src") (auto simp: git__source_write_def)
    from resize_loop_opened [OF l] g True l show ?thesis
      by (auto simp: git__source_write_def split: option.splits prod.splits)
  qed
next
  case (Printf s)
  with assms have g: "git__source_printf h src s = Some (e, h1, src1)" by simp
  show ?thesis
  proof (cases "length s < 2 ^ 31 \<and> opened src \<and> write_ptr src \<noteq> NULL")
    case False
    with g show ?thesis by (auto simp: git__source_printf_def split: if_splits)
  next
    case True
    show ?thesis
    proof (cases "vsnprintf_at h (write_ptr src)
                    (size_sub (len (raw src)) (written_bytes src)) s")
      case None
      with g True show ?thesis by (auto simp: git__source_printf_def)
    next
      case (Some h0)
      with g True obtain y where l: "resize_loop (length s) h0 src = Some y"
        by (cases "resize_loop (length s) h0 src") (auto simp: git__source_printf_def Let_def)
      from resize_loop_opened [OF l] g True l Some show ?thesis
        by (auto simp: git__source_printf_def Let_def split: option.splits prod.splits if_splits)
    qed
  qed
qed

lemma run_writeback_opened:
  "run_writeback xs fin h src = Some (e, h1, src1) \<Longrightarrow> opened src1 = opened src"
proof (induction xs arbitrary: h src)
  case Nil
  then show ?case by simp
next
  case (Cons x xs)
  from Cons.prems obtain e2 h2 src2 where s: "source_op x h src = Some (e2, h2, src2)"
    by (cases "source_op x h src") auto
  from source_op_opened [OF s] have o: "opened src2 = opened src" .
  show ?case
  proof (cases e2)
    case None
    with Cons.prems s have "run_writeback xs fin h2 src2 = Some (e, h1, src1)" by simp
    from Cons.IH [OF this] o show ?thesis by simp
  next
    case (Some e')
    with Cons.prems s o show ?thesis by simp
  qed
qed

lemma prepare_write_opened: "prepare_write h ob = (h1, ob1) \<Longrightarrow> opened (source ob1)"
  by (auto simp: prepare_write_def split: prod.splits)
text \<open>
  C10. Let the object be modified and of one of the four types, and let \<open>ob1\<close> be the
  object after \<^verbatim>\<open>prepare_write\<close>. If the serializer succeeds, leaving the slot \<open>src2\<close>,
  and the write to the database then fails with \<open>e\<close>, \<^verbatim>\<open>git_object_write\<close> returns \<open>e\<close>;
  the repository and its cache are as before, the object is still modified, its
  \<open>in_memory\<close> flag and digest are unchanged, and its slot is \<open>src2\<close> with the length
  trimmed to the written bytes: open, with the buffer of the serialized bytes not released.
  If the serializer itself fails with \<open>e\<close>, the call returns \<open>e\<close> with the slot closed
  and its buffer released.
\<close>

theorem git_object_write_odb_failure:
  assumes "objs w a = Some ob0" and "modified ob0"
    and "prepare_write (mem w) ob0 = (h1, ob1)"
    and "typed (otype (raw (source ob1)))"
  shows "(\<forall>h2 src2 e new_id h3.
            run_writeback (fst (writeback C (otype (raw (source ob1))) a))
              (snd (writeback C (otype (raw (source ob1))) a)) h1 (source ob1)
              = Some (None, h2, src2)
            \<and> git_odb_write oid0 (db (repo w)) ((raw src2)\<lparr>len := written_bytes src2\<rparr>) h2
              = (Some e, new_id, h3)
            \<longrightarrow> git_object_write C w a =
                  Some (Some e,
                        w\<lparr>mem := h3,
                          objs := (objs w)(a \<mapsto>
                            ob1\<lparr>source := src2\<lparr>raw := (raw src2)\<lparr>len := written_bytes src2\<rparr>\<rparr>\<rparr>)\<rparr>)
                \<and> opened src2 \<and> modified ob1 \<and> in_memory ob1 = in_memory ob0
                \<and> obj_id ob1 = obj_id ob0)
       \<and> (\<forall>h2 src2 e.
            run_writeback (fst (writeback C (otype (raw (source ob1))) a))
              (snd (writeback C (otype (raw (source ob1))) a)) h1 (source ob1)
              = Some (Some e, h2, src2)
            \<longrightarrow> git_object_write C w a =
                  Some (Some e,
                        w\<lparr>mem := free (data (raw src2)) h2,
                          objs := (objs w)(a \<mapsto>
                            ob1\<lparr>source := src2\<lparr>raw := (raw src2)\<lparr>data := NULL\<rparr>,
                                               opened := False\<rparr>\<rparr>)\<rparr>))"
proof (intro conjI allI impI)
  fix h2 src2 e new_id h3
  assume a: "run_writeback (fst (writeback C (otype (raw (source ob1))) a))
              (snd (writeback C (otype (raw (source ob1))) a)) h1 (source ob1)
              = Some (None, h2, src2)
            \<and> git_odb_write oid0 (db (repo w)) ((raw src2)\<lparr>len := written_bytes src2\<rparr>) h2
              = (Some e, new_id, h3)"
  from prepare_write_fields [OF assms(3)] assms(2)
  have f: "modified ob1" "in_memory ob1 = in_memory ob0" "obj_id ob1 = obj_id ob0" by simp_all
  from a run_writeback_opened prepare_write_opened [OF assms(3)]
  have o: "opened src2" by blast
  have wb: "write_back (w\<lparr>mem := h2, objs := (objs w)(a \<mapsto> ob1\<lparr>source := src2\<rparr>)\<rparr>) a =
              (Some e, w\<lparr>mem := h3,
                          objs := (objs w)(a \<mapsto>
                            ob1\<lparr>source := src2\<lparr>raw := (raw src2)\<lparr>len := written_bytes src2\<rparr>\<rparr>\<rparr>)\<rparr>)"
    using a o f(1) by (simp add: write_back_def Let_def)
  show "git_object_write C w a =
                  Some (Some e,
                        w\<lparr>mem := h3,
                          objs := (objs w)(a \<mapsto>
                            ob1\<lparr>source := src2\<lparr>raw := (raw src2)\<lparr>len := written_bytes src2\<rparr>\<rparr>\<rparr>)\<rparr>)"
    using assms a wb by (simp add: git_object_write_def)
  from o f show "opened src2" "modified ob1" "in_memory ob1 = in_memory ob0"
    "obj_id ob1 = obj_id ob0" by simp_all
next
  fix h2 src2 e
  assume a: "run_writeback (fst (writeback C (otype (raw (source ob1))) a))
              (snd (writeback C (otype (raw (source ob1))) a)) h1 (source ob1)
              = Some (Some e, h2, src2)"
  from a run_writeback_opened prepare_write_opened [OF assms(3)]
  have o: "opened src2" by blast
  then have "git_object__source_close h2 (ob1\<lparr>source := src2\<rparr>) =
               (free (data (raw src2)) h2,
                ob1\<lparr>source := src2\<lparr>raw := (raw src2)\<lparr>data := NULL\<rparr>, opened := False\<rparr>\<rparr>)"
    by (simp add: git_object__source_close_def git_rawobj_close_def)
  with assms a show "git_object_write C w a =
                  Some (Some e,
                        w\<lparr>mem := free (data (raw src2)) h2,
                          objs := (objs w)(a \<mapsto>
                            ob1\<lparr>source := src2\<lparr>raw := (raw src2)\<lparr>data := NULL\<rparr>,
                                               opened := False\<rparr>\<rparr>)\<rparr>)"
    by (simp add: git_object_write_def)
qed
lemma world_new_eq:
  "world_new =
     \<lparr>mem = \<lparr>blocks = Map.empty(0 \<mapsto> replicate 64 NUL), brk = 1, avail = 65472\<rparr>,
      objs = Map.empty(0 \<mapsto>
        \<lparr>obj_id = oid0,
         source = \<lparr>raw = \<lparr>data = NULL, len = 0, otype = GIT_OBJ_BLOB\<rparr>,
                   write_ptr = NULL, written_bytes = 0, opened = False\<rparr>,
         in_memory = True, modified = True\<rparr>),
      repo = repo_of \<lparr>self = 0, backends = [storing]\<rparr>\<rparr>"
  by (simp add: world_new_def git_repository_newobject_def world_blob_def typed_def
        alloc_object_def object_sizes_def collab0_def git__malloc_def heap0_def zero_object_def)

lemma write_new_blob:
  "\<exists>w1. git_object_write collab0 world_new 0 = Some (None, w1)"
  by (simp add: world_new_eq git_object_write_def prepare_write_def git__malloc_def
        OBJECT_BASE_SIZE_def typed_def collab0_def git__source_write_def resize_loop.simps
        size_t_def wr_def ptr_add_def write_back_def Let_def git_odb_write_def repo_of_def storing_def
        git_rawobj_hash_def git_odb__hash_obj_def loose_iff format_object_header_def
        snprintf_def git_otype_tostring_def obj_type_table_def dec.simps rd_def
        git_hash_vec_def git_object__source_close_def git_rawobj_close_def free_def)
lemma world_ro_eq:
  "world_ro =
     \<lparr>mem = \<lparr>blocks = Map.empty(0 \<mapsto> replicate 64 NUL), brk = 1, avail = 65472\<rparr>,
      objs = Map.empty(0 \<mapsto>
        \<lparr>obj_id = oid0,
         source = \<lparr>raw = \<lparr>data = NULL, len = 0, otype = GIT_OBJ_BLOB\<rparr>,
                   write_ptr = NULL, written_bytes = 0, opened = False\<rparr>,
         in_memory = True, modified = True\<rparr>),
      repo = repo_of \<lparr>self = 0, backends = [failing GIT_ERROR]\<rparr>\<rparr>"
  by (simp add: world_ro_def git_repository_newobject_def typed_def
        alloc_object_def object_sizes_def collab0_def git__malloc_def heap0_def zero_object_def)

theorem git_object_write_odb_failure_witness:
  "\<exists>w1 ob. git_object_write collab0 world_ro 0 = Some (Some GIT_ERROR, w1)
     \<and> objs w1 0 = Some ob \<and> opened (source ob) \<and> modified ob \<and> in_memory ob
     \<and> objects (repo w1) = objects (repo world_ro)"
proof -
  let ?ob0 = "\<lparr>obj_id = oid0,
         source = \<lparr>raw = \<lparr>data = NULL, len = 0, otype = GIT_OBJ_BLOB\<rparr>,
                   write_ptr = NULL, written_bytes = 0, opened = False\<rparr>,
         in_memory = True, modified = True\<rparr>"
  let ?h1 = "fst (prepare_write (mem world_ro) ?ob0)"
  let ?ob1 = "snd (prepare_write (mem world_ro) ?ob0)"
  have 1: "objs world_ro 0 = Some ?ob0" by (simp add: world_ro_eq)
  have 2: "modified ?ob0" by simp
  have 3: "prepare_write (mem world_ro) ?ob0 = (?h1, ?ob1)" by simp
  have t: "otype (raw (source ?ob1)) = GIT_OBJ_BLOB"
    using prepare_write_fields [OF 3] by simp
  then have 4: "typed (otype (raw (source ?ob1)))" by (simp add: typed_def)
  have "\<exists>h2 src2. run_writeback (fst (writeback collab0 GIT_OBJ_BLOB 0))
              (snd (writeback collab0 GIT_OBJ_BLOB 0)) ?h1 (source ?ob1) = Some (None, h2, src2)"
    by (simp add: world_ro_eq prepare_write_def git__malloc_def OBJECT_BASE_SIZE_def
          collab0_def git__source_write_def resize_loop.simps size_t_def wr_def)
  then obtain h2 src2 where r: "run_writeback (fst (writeback collab0 GIT_OBJ_BLOB 0))
              (snd (writeback collab0 GIT_OBJ_BLOB 0)) ?h1 (source ?ob1) = Some (None, h2, src2)"
    by blast
  have d: "git_odb_write oid0 (db (repo world_ro)) ((raw src2)\<lparr>len := written_bytes src2\<rparr>) h2
             = (Some GIT_ERROR, oid0, h2)"
    by (simp add: world_ro_eq repo_of_def git_odb_write_def failing_def)
  from git_object_write_odb_failure [OF 1 2 3 4, of collab0] r d t
  have g: "git_object_write collab0 world_ro 0 =
             Some (Some GIT_ERROR,
                   world_ro\<lparr>mem := h2,
                     objs := (objs world_ro)(0 \<mapsto>
                       ?ob1\<lparr>source := src2\<lparr>raw := (raw src2)\<lparr>len := written_bytes src2\<rparr>\<rparr>\<rparr>)\<rparr>)"
    and o: "opened src2" "modified ?ob1" "in_memory ?ob1 = in_memory ?ob0"
    by simp_all
  from g o show ?thesis by simp
qed

theorem git_object_write_rebinds_witness:
  "\<exists>w1 ob. git_object_write collab0 world_new 0 = Some (None, w1)
     \<and> objs w1 0 = Some ob \<and> \<not> modified ob \<and> \<not> in_memory ob
     \<and> git_repository_lookup collab0 w1 (obj_id ob) GIT_OBJ_ANY = (Inr 0, w1)"
proof -
  let ?ob0 = "\<lparr>obj_id = oid0,
         source = \<lparr>raw = \<lparr>data = NULL, len = 0, otype = GIT_OBJ_BLOB\<rparr>,
                   write_ptr = NULL, written_bytes = 0, opened = False\<rparr>,
         in_memory = True, modified = True\<rparr>"
  obtain w1 where e: "git_object_write collab0 world_new 0 = Some (None, w1)"
    using write_new_blob by blast
  have o: "objs world_new 0 = Some ?ob0" by (simp add: world_new_eq)
  have m: "modified ?ob0" by simp
  from git_object_write_rebinds [OF o m e] e show ?thesis by blast
qed
text \<open>
  C9. \<^verbatim>\<open>git_object_id\<close> returns \<^verbatim>\<open>NULL\<close> exactly when the object is \<open>in_memory\<close>, and
  the stored digest otherwise. An object created by \<^verbatim>\<open>git_repository_newobject\<close> has no
  digest; an object that a lookup has materialized has the digest that was looked up; an
  object that has been written successfully has its stored digest.
\<close>

theorem git_object_id_null_iff:
  "(git_object_id ob = None \<longleftrightarrow> in_memory ob)
   \<and> (\<not> in_memory ob \<longrightarrow> git_object_id ob = Some (obj_id ob))
   \<and> (git_repository_newobject C w t = (Inr a, w1) \<longrightarrow>
        (\<exists>o1. objs w1 a = Some o1 \<and> git_object_id o1 = None))
   \<and> (git_hashtable_lookup (objects (repo w)) oid = None
        \<and> git_repository_lookup C w oid t = (Inr a, w1) \<longrightarrow>
        (\<exists>o1. objs w1 a = Some o1 \<and> git_object_id o1 = Some oid))
   \<and> (objs w a = Some ob \<and> modified ob \<and> git_object_write C w a = Some (None, w1) \<longrightarrow>
        (\<exists>o1. objs w1 a = Some o1 \<and> git_object_id o1 = Some (obj_id o1)))"
proof (intro conjI impI)
  show "git_object_id ob = None \<longleftrightarrow> in_memory ob"
    by (simp add: git_object_id_def)
next
  assume "\<not> in_memory ob"
  then show "git_object_id ob = Some (obj_id ob)"
    by (simp add: git_object_id_def)
next
  assume "git_repository_newobject C w t = (Inr a, w1)"
  then have "\<exists>o1. objs w1 a = Some o1 \<and> in_memory o1"
    by (auto simp: git_repository_newobject_def split: if_splits prod.splits sum.splits)
  then show "\<exists>o1. objs w1 a = Some o1 \<and> git_object_id o1 = None"
    by (auto simp: git_object_id_def)
next
  assume "git_hashtable_lookup (objects (repo w)) oid = None
        \<and> git_repository_lookup C w oid t = (Inr a, w1)"
  then have "\<exists>o1. objs w1 a = Some o1 \<and> \<not> in_memory o1 \<and> obj_id o1 = oid"
    by (auto simp: git_repository_lookup_def Let_def zero_object_def
                   git_object__source_close_def git_rawobj_close_def
             split: prod.splits option.splits if_splits sum.splits)
  then show "\<exists>o1. objs w1 a = Some o1 \<and> git_object_id o1 = Some oid"
    by (auto simp: git_object_id_def)
next
  assume a: "objs w a = Some ob \<and> modified ob \<and> git_object_write C w a = Some (None, w1)"
  then obtain ob' h2 where
    wb: "write_back (w\<lparr>mem := h2, objs := (objs w)(a \<mapsto> ob')\<rparr>) a = (None, w1)"
    using git_object_write_success [of w a ob C w1] by blast
  have "objs (w\<lparr>mem := h2, objs := (objs w)(a \<mapsto> ob')\<rparr>) a = Some ob'" by simp
  from write_back_success [OF this wb]
  obtain o1 where "objs w1 a = Some o1" "\<not> in_memory o1" by blast
  then show "\<exists>o1. objs w1 a = Some o1 \<and> git_object_id o1 = Some (obj_id o1)"
    by (auto simp: git_object_id_def)
qed

theorem git_object_id_null_iff_witness:
  "(\<exists>o1. objs world_new 0 = Some o1 \<and> git_object_id o1 = None)
   \<and> (\<exists>o1. objs (snd (git_repository_lookup collab0 world_tree ''k'' GIT_OBJ_ANY)) 1 = Some o1
          \<and> git_object_id o1 = Some ''k'')"
proof -
  let ?w1 = "snd (git_repository_lookup collab0 world_tree ''k'' GIT_OBJ_ANY)"
  have n: "git_repository_newobject collab0 world_blob GIT_OBJ_BLOB = (Inr 0, world_new)"
    by (simp add: world_new_def git_repository_newobject_def world_blob_def typed_def
          alloc_object_def object_sizes_def collab0_def git__malloc_def heap0_def)
  have m: "git_hashtable_lookup (objects (repo world_tree)) ''k'' = None"
    by (simp add: world_tree_def repo_of_def git_hashtable_lookup_def)
  have l: "git_repository_lookup collab0 world_tree ''k'' GIT_OBJ_ANY = (Inr 1, ?w1)"
    using lookup_tree_any by (metis prod.collapse)
  from git_object_id_null_iff
         [of zero_object collab0 world_blob GIT_OBJ_BLOB 0 world_new] n
  have 1: "\<exists>o1. objs world_new 0 = Some o1 \<and> git_object_id o1 = None" by blast
  from git_object_id_null_iff
         [of zero_object collab0 world_tree GIT_OBJ_ANY 1 ?w1 "''k''"] m l
  have 2: "\<exists>o1. objs ?w1 1 = Some o1 \<and> git_object_id o1 = Some ''k''" by blast
  from 1 2 show ?thesis by blast
qed
section \<open>Properties of the write buffer\<close>










lemma doubled_less: "doubled need cap cap' \<Longrightarrow> need < cap'"
  by (simp add: doubled_def)












lemma buf0_eq:
  "buf0 =
     (\<lparr>blocks = Map.empty(0 \<mapsto> replicate 4096 NUL), brk = 1, avail = 61440\<rparr>,
      zero_object\<lparr>source :=
        \<lparr>raw = \<lparr>data = Ptr 0 0, len = 4096, otype = GIT_OBJ__EXT1\<rparr>,
         write_ptr = Ptr 0 0, written_bytes = 0, opened = True\<rparr>\<rparr>)"
  by (simp add: buf0_def prepare_write_def zero_object_def git__malloc_def heap0_def
        OBJECT_BASE_SIZE_def)



lemma buf3_eq: "\<exists>h1 src1. buf3 = Some (Some UNDEFINED_BEHAVIOUR, h1, src1)"
  by (simp add: buf3_def buf0_eq git__source_printf_def vsnprintf_at_def snprintf_def
        size_sub_def size_t_def wr_def Let_def resize_loop.simps source_resize_def
        ptr_diff_def git__malloc_def rd_def free_def ptr_add_def)

section \<open>Properties of opening a repository\<close>

text \<open>
  C7 at a concrete input: the relative path \<open>.git\<close>, a directory that contains
  \<open>objects/\<close> and \<open>HEAD\<close>. The buffer holds \<open>.git/\<close>, which has no separator before its
  last character: the backwards scan for the separator leaves the buffer at its start.
  The call does not classify the repository.
\<close>

theorem git_repository_open_relative_path:
  "git_repository_open (platform_of [''.git'', ''.git/objects/''] [''.git/HEAD'']) ''.git''
     = Inl UNDEFINED_BEHAVIOUR
   \<and> scan_back ''.git/'' 3 = None"
  by (simp add: git_repository_open_def guess_repository_folders_def platform_of_def
        git_repository__alloc_def GIT_OBJECTS_FOLDER_def GIT_HEAD_FILE_def Let_def
        numeral_3_eq_3)

lemma open_dot_git:
  "git_repository_open
     (platform_of [''/tmp/r/.git'', ''/tmp/r/.git/objects/''] [''/tmp/r/.git/HEAD''])
     ''/tmp/r/.git''
   = Inr (git_repository__alloc
       \<lparr>db := \<lparr>self = 0, backends = [(failing GIT_ENOTFOUND)\<lparr>odb := Some 0\<rparr>]\<rparr>,
        path_repository := Some ''/tmp/r/.git/'',
        path_odb := Some ''/tmp/r/.git/objects/'',
        path_index := Some ''/tmp/r/.git/index'',
        path_workdir := Some ''/tmp/r/'',
        is_bare := False\<rparr>)"
  by (simp add: git_repository_open_def guess_repository_folders_def platform_of_def
        git_repository__alloc_def GIT_OBJECTS_FOLDER_def GIT_HEAD_FILE_def GIT_FOLDER_def
        GIT_INDEX_FILE_def Let_def git_odb_open_def git_odb_new_def git_odb_add_backend_def
        git_vector_sort_def failing_def eval_nat_numeral)

lemma open_bare:
  "git_repository_open
     (platform_of [''/tmp/bare.git'', ''/tmp/bare.git/objects/''] [''/tmp/bare.git/HEAD''])
     ''/tmp/bare.git''
   = Inr (git_repository__alloc
       \<lparr>db := \<lparr>self = 0, backends = [(failing GIT_ENOTFOUND)\<lparr>odb := Some 0\<rparr>]\<rparr>,
        path_repository := Some ''/tmp/bare.git/'',
        path_odb := Some ''/tmp/bare.git/objects/'',
        is_bare := True\<rparr>)"
  by (simp add: git_repository_open_def guess_repository_folders_def platform_of_def
        git_repository__alloc_def GIT_OBJECTS_FOLDER_def GIT_HEAD_FILE_def GIT_FOLDER_def
        GIT_INDEX_FILE_def Let_def git_odb_open_def git_odb_new_def git_odb_add_backend_def
        git_vector_sort_def failing_def eval_nat_numeral)

end
